theory Spec2Isabelle
  imports Complex_Main "HOL-Library.Signed_Division"
begin

chapter \<open>PeTrack: helper functions and the frame-update engine\<close>

text \<open>
  A shallow embedding of the parts of \<^verbatim>\<open>helper.h\<close>, \<^verbatim>\<open>helper.cpp\<close> and
  \<^verbatim>\<open>petrack.cpp\<close> that the specification talks about. A definition that translates a
  C++ function carries its name. Record fields carry a short prefix (\<open>rect_x\<close> for
  \<^verbatim>\<open>rect.x\<close>), because a field name is a constant in HOL.
\<close>

section \<open>Model\<close>

subsection \<open>Doubles and \<^verbatim>\<open>getMedianOf3\<close> (helper.h)\<close>

text \<open>
  The only operation \<^verbatim>\<open>getMedianOf3\<close> applies to its arguments is \<^verbatim>\<open><\<close>. A double is
  therefore modelled by its place in the IEEE 754 comparison: not-a-number, the two
  infinities, or a finite value (a real; the two zeros compare equal and are one value
  here). Every comparison with a NaN operand is false.
\<close>

datatype double = NaN | NegInf | Finite real | PosInf

fun dless :: "double \<Rightarrow> double \<Rightarrow> bool" where
  "dless NaN _ = False"
| "dless _ NaN = False"
| "dless NegInf NegInf = False"
| "dless NegInf _ = True"
| "dless (Finite u) (Finite v) = (u < v)"
| "dless (Finite _) PosInf = True"
| "dless (Finite _) NegInf = False"
| "dless PosInf _ = False"

fun dle :: "double \<Rightarrow> double \<Rightarrow> bool" where
  "dle NaN _ = False"
| "dle _ NaN = False"
| "dle NegInf _ = True"
| "dle (Finite u) (Finite v) = (u \<le> v)"
| "dle (Finite _) PosInf = True"
| "dle (Finite _) NegInf = False"
| "dle PosInf PosInf = True"
| "dle PosInf _ = False"

fun isnan :: "double \<Rightarrow> bool" where
  "isnan NaN = True"
| "isnan _ = False"

text \<open>\<^verbatim>\<open>inline double getMedianOf3(double a, double b, double c)\<close>, branch by branch.\<close>

definition getMedianOf3 :: "double \<Rightarrow> double \<Rightarrow> double \<Rightarrow> double" where
  "getMedianOf3 a b c =
     (if dless a b then
        (if dless b c then b
         else if dless c b \<and> dless c a then a
         else c)
      else
        (if dless a c then a
         else if dless c a \<and> dless c b then b
         else c))"

text \<open>
  The median property in the words of the claim: the result is one of the three
  arguments and lies between the minimum and the maximum of the other two. Minimum and
  maximum are those of \<^verbatim>\<open>std::min\<close> and \<^verbatim>\<open>std::max\<close>.
\<close>

definition dmin :: "double \<Rightarrow> double \<Rightarrow> double" where
  "dmin u v = (if dless v u then v else u)"

definition dmax :: "double \<Rightarrow> double \<Rightarrow> double" where
  "dmax u v = (if dless u v then v else u)"

definition between_others :: "double \<Rightarrow> double \<Rightarrow> double \<Rightarrow> bool" where
  "between_others m u v = (dle (dmin u v) m \<and> dle m (dmax u v))"

definition is_median_of3 :: "double \<Rightarrow> double \<Rightarrow> double \<Rightarrow> double \<Rightarrow> bool" where
  "is_median_of3 m a b c =
     ((m = a \<and> between_others m b c) \<or>
      (m = b \<and> between_others m a c) \<or>
      (m = c \<and> between_others m a b))"

subsection \<open>Strings: \<^verbatim>\<open>QString::split\<close>, \<^verbatim>\<open>QString::toInt\<close>, \<^verbatim>\<open>QString::contains\<close>\<close>

text \<open>
  A \<^verbatim>\<open>QString\<close> is a \<^typ>\<open>string\<close>. The three Qt functions the code calls are library
  code; they are modelled here after the Qt documentation, on ASCII text.

  \<^verbatim>\<open>split(sep)\<close> keeps empty parts (the default \<^verbatim>\<open>Qt::KeepEmptyParts\<close>): the empty
  string splits into one empty part.
\<close>

fun split_on :: "char \<Rightarrow> string \<Rightarrow> string \<Rightarrow> string list" where
  "split_on sep cur [] = [cur]"
| "split_on sep cur (c # cs) =
     (if c = sep then cur # split_on sep [] cs else split_on sep (cur @ [c]) cs)"

definition split :: "char \<Rightarrow> string \<Rightarrow> string list" where
  "split sep s = split_on sep [] s"

text \<open>
  \<^verbatim>\<open>toInt(&ok, 10)\<close>: surrounding white space is ignored, one sign is allowed, the rest
  must be a non-empty run of decimal digits, and the value must fit a 32-bit
  \<^verbatim>\<open>int\<close>. \<open>None\<close> is \<^verbatim>\<open>ok == false\<close>.
\<close>

definition isSpace :: "char \<Rightarrow> bool" where
  "isSpace c = ((of_char c :: nat) = 32 \<or> (9 \<le> (of_char c :: nat) \<and> (of_char c :: nat) \<le> 13))"

definition isDigit :: "char \<Rightarrow> bool" where
  "isDigit c = (48 \<le> (of_char c :: nat) \<and> (of_char c :: nat) \<le> 57)"

definition trimmed :: "string \<Rightarrow> string" where
  "trimmed s = rev (dropWhile isSpace (rev (dropWhile isSpace s)))"

fun digitsValue :: "int \<Rightarrow> string \<Rightarrow> int" where
  "digitsValue acc [] = acc"
| "digitsValue acc (c # cs) = digitsValue (acc * 10 + (int (of_char c) - 48)) cs"

definition INT_MAX :: int where
  "INT_MAX = 2147483647"

definition INT_MIN :: int where
  "INT_MIN = - 2147483648"

definition unsignedDigits :: "string \<Rightarrow> int option" where
  "unsignedDigits ds = (if ds \<noteq> [] \<and> list_all isDigit ds then Some (digitsValue 0 ds) else None)"

definition signedNumber :: "string \<Rightarrow> int option" where
  "signedNumber t =
     (case t of
        [] \<Rightarrow> None
      | c # cs \<Rightarrow>
          if c = CHR ''-'' then map_option uminus (unsignedDigits cs)
          else if c = CHR ''+'' then unsignedDigits cs
          else unsignedDigits t)"

definition toInt :: "string \<Rightarrow> int option" where
  "toInt s =
     (case signedNumber (trimmed s) of
        None \<Rightarrow> None
      | Some v \<Rightarrow> if INT_MIN \<le> v \<and> v \<le> INT_MAX then Some v else None)"

text \<open>
  \<^verbatim>\<open>startsWith(needle)\<close> and \<^verbatim>\<open>contains(needle)\<close>: the text begins with the needle; some
  position of the text carries the needle. With \<^verbatim>\<open>Qt::CaseInsensitive\<close> letters are
  compared without case.
\<close>

fun startsWith :: "string \<Rightarrow> string \<Rightarrow> bool" where
  "startsWith [] _ = True"
| "startsWith (n # ns) [] = False"
| "startsWith (n # ns) (c # cs) = (n = c \<and> startsWith ns cs)"

fun contains :: "string \<Rightarrow> string \<Rightarrow> bool" where
  "contains needle [] = startsWith needle []"
| "contains needle (c # cs) = (startsWith needle (c # cs) \<or> contains needle cs)"

definition toLower :: "char \<Rightarrow> char" where
  "toLower c =
     (if 65 \<le> (of_char c :: nat) \<and> (of_char c :: nat) \<le> 90 then char_of ((of_char c :: nat) + 32) else c)"

definition startsWithCI :: "string \<Rightarrow> string \<Rightarrow> bool" where
  "startsWithCI needle s = startsWith (map toLower needle) (map toLower s)"

definition containsCI :: "string \<Rightarrow> string \<Rightarrow> bool" where
  "containsCI needle s = contains (map toLower needle) (map toLower s)"

subsection \<open>\<^verbatim>\<open>newerThanVersion\<close> (helper.cpp)\<close>

text \<open>The two \<^verbatim>\<open>std::invalid_argument\<close> exceptions of the function, by their message.\<close>

datatype invalid_argument = VersionNonNumeric | WrongAmountOfParts

text \<open>The loop that converts the parts and throws at the first part that is no number.\<close>

fun versionParts :: "string list \<Rightarrow> invalid_argument + int list" where
  "versionParts [] = Inr []"
| "versionParts (p # ps) =
     (case toInt p of
        None \<Rightarrow> Inl VersionNonNumeric
      | Some part \<Rightarrow>
          (case versionParts ps of
             Inl e \<Rightarrow> Inl e
           | Inr parts \<Rightarrow> Inr (part # parts)))"

definition amountOfVersionParts :: nat where
  "amountOfVersionParts = 3"

text \<open>"special case: PATCH can be omissed; is then assumed to be zero".\<close>

definition addPatch :: "int list \<Rightarrow> int list" where
  "addPatch parts = (if length parts = 2 then parts @ [0] else parts)"

text \<open>
  The final loop \<^verbatim>\<open>for(int i = 0; i < amountOfVersionParts; ++i)\<close>; the first argument
  counts the iterations that are left, the last one is \<^verbatim>\<open>i\<close>.
\<close>

fun compareParts :: "nat \<Rightarrow> int list \<Rightarrow> int list \<Rightarrow> nat \<Rightarrow> bool" where
  "compareParts 0 v1 v2 i = False"
| "compareParts (Suc k) v1 v2 i =
     (if v1 ! i > v2 ! i then True
      else if v1 ! i < v2 ! i then False
      else compareParts k v1 v2 (Suc i))"

definition newerThanVersion :: "string \<Rightarrow> string \<Rightarrow> invalid_argument + bool" where
  "newerThanVersion q1 q2 =
     (case versionParts (split CHR ''.'' q1) of
        Inl e \<Rightarrow> Inl e
      | Inr version1_parts \<Rightarrow>
          (case versionParts (split CHR ''.'' q2) of
             Inl e \<Rightarrow> Inl e
           | Inr version2_parts \<Rightarrow>
               if \<not> (length version1_parts = amountOfVersionParts \<and>
                     length version2_parts = amountOfVersionParts)
               then
                 (let v1 = addPatch version1_parts; v2 = addPatch version2_parts
                  in if \<not> (length v1 = amountOfVersionParts \<and> length v2 = amountOfVersionParts)
                     then Inl WrongAmountOfParts
                     else Inr (compareParts amountOfVersionParts v1 v2 0))
               else Inr (compareParts amountOfVersionParts version1_parts version2_parts 0)))"

text \<open>
  The reading of a version string that the claim describes: all parts numeric, two or
  three of them, a missing patch number read as zero; and the lexicographic order on
  the triples.
\<close>

definition numericParts :: "string \<Rightarrow> bool" where
  "numericParts q = list_all (\<lambda>p. toInt p \<noteq> None) (split CHR ''.'' q)"

definition partCountOk :: "string \<Rightarrow> bool" where
  "partCountOk q = (length (split CHR ''.'' q) = 2 \<or> length (split CHR ''.'' q) = 3)"

definition partsTriple :: "int list \<Rightarrow> int \<times> int \<times> int" where
  "partsTriple ps = (ps ! 0, ps ! 1, if length ps = 2 then 0 else ps ! 2)"

definition versionTriple :: "string \<Rightarrow> int \<times> int \<times> int" where
  "versionTriple q = partsTriple (map (\<lambda>p. the (toInt p)) (split CHR ''.'' q))"

fun tripleGreater :: "int \<times> int \<times> int \<Rightarrow> int \<times> int \<times> int \<Rightarrow> bool" where
  "tripleGreater (a1, b1, c1) (a2, b2, c2) =
     (a1 > a2 \<or> (a1 = a2 \<and> (b1 > b2 \<or> (b1 = b2 \<and> c1 > c2))))"

subsection \<open>\<^verbatim>\<open>getRoi\<close> (helper.cpp)\<close>

text \<open>
  \<^verbatim>\<open>QRect\<close> (read through \<^verbatim>\<open>x()\<close>, \<^verbatim>\<open>y()\<close>, \<^verbatim>\<open>width()\<close>, \<^verbatim>\<open>height()\<close>) and \<^verbatim>\<open>cv::Rect\<close>.
  The coordinates are C++ \<^verbatim>\<open>int\<close>s; they are integers here, so the model is the code
  as long as no sum leaves the 32-bit range. \<^verbatim>\<open>%\<close> is the truncating remainder of C++
  (\<open>smod\<close>): the remainder of a negative odd number is \<open>-1\<close>.
\<close>

record QRect =
  roi_x :: int
  roi_y :: int
  roi_width :: int
  roi_height :: int

record Rect =
  rect_x :: int
  rect_y :: int
  rect_width :: int
  rect_height :: int

text \<open>
  The image enters by its \<^verbatim>\<open>cols\<close> and \<^verbatim>\<open>rows\<close>. The result is the rectangle the function
  leaves in \<^verbatim>\<open>rect\<close>, with which it then calls \<^verbatim>\<open>img(rect)\<close>. Each \<open>let\<close> is one
  statement group of the source, in its order.
\<close>

definition getRoi :: "int \<Rightarrow> int \<Rightarrow> QRect \<Rightarrow> bool \<Rightarrow> Rect" where
  "getRoi cols rows roi evenPixelNumber =
     (let x0 = roi_x roi;
          y0 = roi_y roi;
          w0 = roi_width roi;
          h0 = roi_height roi;
          w1 = (if evenPixelNumber \<and> w0 smod 2 > 0 then w0 - 1 else w0);
          h1 = (if evenPixelNumber \<and> h0 smod 2 > 0 then h0 - 1 else h0);
          w2 = (if x0 < 0 then w1 + x0 else if x0 > cols then 0 else w1);
          x2 = (if x0 < 0 then 0 else if x0 > cols then cols else x0);
          w3 = (if x2 + w2 > cols then w2 - (x2 + w2 - cols) else w2);
          h2 = (if y0 < 0 then h1 + y0 else if y0 > rows then 0 else h1);
          y2 = (if y0 < 0 then 0 else if y0 > rows then rows else y0);
          h3 = (if y2 + h2 > rows then h2 - (y2 + h2 - rows) else h2)
      in \<lparr>rect_x = x2, rect_y = y2, rect_width = w3, rect_height = h3\<rparr>)"

text \<open>
  What the claim asks of the rectangle; it is also what \<^verbatim>\<open>cv::Mat::operator()\<close> asserts
  of its argument.
\<close>

definition insideImage :: "int \<Rightarrow> int \<Rightarrow> Rect \<Rightarrow> bool" where
  "insideImage cols rows r =
     (0 \<le> rect_x r \<and> 0 \<le> rect_y r \<and> 0 \<le> rect_width r \<and> 0 \<le> rect_height r \<and>
      rect_x r + rect_width r \<le> cols \<and> rect_y r + rect_height r \<le> rows)"

definition evenSize :: "Rect \<Rightarrow> bool" where
  "evenSize r = (rect_width r smod 2 = 0 \<and> rect_height r smod 2 = 0)"

subsection \<open>Track points, persons and the store\<close>

text \<open>
  Modelled from the spec: the classes \<^verbatim>\<open>TrackPoint\<close>, \<^verbatim>\<open>TrackPerson\<close> and
  \<^verbatim>\<open>PersonStorage\<close> are not among the source files; \<^verbatim>\<open>petrack.cpp\<close> only calls them.
  A track point is a pixel position, a quality and the cached real-world position
  \<^verbatim>\<open>sp()\<close>. A person is an id, its first frame, the sequence of its points indexed by the
  offset from the first frame, and a height: "the person exists at frame f iff
  firstFrame \<le> f \<le> firstFrame + length - 1". The store owns the persons in
  a sequence, \<^verbatim>\<open>at(i)\<close> is the \<open>i\<close>-th of them and \<^verbatim>\<open>addPerson\<close> appends one.
  Coordinates are floats and doubles in the code and real numbers here: rounding is
  not modelled.
\<close>

type_synonym Vec3F = "real \<times> real \<times> real"

record TrackPoint =
  tp_x :: real
  tp_y :: real
  tp_qual :: int
  tp_sp :: Vec3F

record TrackPerson =
  tpers_nr :: int
  tpers_firstFrame :: int
  tpers_points :: "TrackPoint list"
  tpers_height :: real

type_synonym PersonStorage = "TrackPerson list"

text \<open>
  Modelled from the spec: the constructor \<^verbatim>\<open>TrackPoint(Vec2F pos, int qual)\<close>, as
  \<^verbatim>\<open>petrack.cpp\<close> calls it; the real-world position is not set yet.
\<close>

definition mkTrackPoint :: "real \<times> real \<Rightarrow> int \<Rightarrow> TrackPoint" where
  "mkTrackPoint pos q = \<lparr>tp_x = fst pos, tp_y = snd pos, tp_qual = q, tp_sp = (0, 0, 0)\<rparr>"

text \<open>
  Modelled from the spec: the constructor \<^verbatim>\<open>TrackPerson(int nr, int frame, TrackPoint p)\<close>,
  as \<^verbatim>\<open>petrack.cpp\<close> calls it: a person with one point at its first frame.
\<close>

definition mkTrackPerson :: "int \<Rightarrow> int \<Rightarrow> TrackPoint \<Rightarrow> TrackPerson" where
  "mkTrackPerson nr frame p =
     \<lparr>tpers_nr = nr, tpers_firstFrame = frame, tpers_points = [p], tpers_height = 0\<rparr>"

text \<open>Modelled from the spec: the last frame of a person's contiguous range.\<close>

definition lastFrame :: "TrackPerson \<Rightarrow> int" where
  "lastFrame pers = tpers_firstFrame pers + int (length (tpers_points pers)) - 1"

text \<open>
  Modelled from the spec: \<^verbatim>\<open>TrackPerson::trackPointExist\<close>, "the person exists at frame f
  iff firstFrame \<le> f \<le> firstFrame + length - 1".
\<close>

definition trackPointExist :: "TrackPerson \<Rightarrow> int \<Rightarrow> bool" where
  "trackPointExist pers frame = (tpers_firstFrame pers \<le> frame \<and> frame \<le> lastFrame pers)"

text \<open>
  Modelled from the spec: \<^verbatim>\<open>TrackPerson::trackPointAt\<close>, the point "indexed by offset
  from firstFrame"; it is only read where \<^verbatim>\<open>trackPointExist\<close> holds.
\<close>

definition trackPointAt :: "TrackPerson \<Rightarrow> int \<Rightarrow> TrackPoint" where
  "trackPointAt pers frame = tpers_points pers ! nat (frame - tpers_firstFrame pers)"

text \<open>Modelled from the spec: \<^verbatim>\<open>TrackPerson::append\<close>, one more point at the end of the range.\<close>

definition append_point :: "TrackPoint \<Rightarrow> TrackPerson \<Rightarrow> TrackPerson" where
  "append_point p pers = pers\<lparr>tpers_points := tpers_points pers @ [p]\<rparr>"

text \<open>Modelled from the spec: \<^verbatim>\<open>PersonStorage::addPerson\<close>, the person joins the store as its last.\<close>

definition addPerson :: "TrackPerson \<Rightarrow> PersonStorage \<Rightarrow> PersonStorage" where
  "addPerson pers store = store @ [pers]"

subsection \<open>\<^verbatim>\<open>PersonStorage::addPoint\<close> and \<^verbatim>\<open>Petrack::addOrMoveManualTrackPoint\<close>\<close>

text \<open>
  Modelled from the spec: \<^verbatim>\<open>PersonStorage::addPoint\<close> is not among the source files.
  Section 4.1: the point (a) replaces the point stored for an eligible person at the
  frame iff its quality strictly exceeds the stored one, (b) extends an eligible
  person whose range ends at \<open>frame - 1\<close>, or (c) starts a new person at the frame;
  with a non-empty set of eligible persons the point is not persisted when no eligible
  person takes it. Section 3: a quality above the valid maximum is clamped to 100 on
  acceptance. The spec does not say how the person a point belongs to is found among
  several; the model takes that person \<open>dest\<close> (an index into the store, if any) as
  an argument. The result carries the index that \<^verbatim>\<open>addPoint\<close> writes to \<^verbatim>\<open>*pers\<close>,
  if it writes one.
\<close>

text \<open>Modelled from the spec: the valid maximum of the quality, "quality score in [0,100]".\<close>

definition MAX_QUALITY :: int where
  "MAX_QUALITY = 100"

text \<open>Modelled from the spec: the clamp of the quality "to 100 on acceptance".\<close>

definition acceptPoint :: "TrackPoint \<Rightarrow> TrackPoint" where
  "acceptPoint p = (if tp_qual p > MAX_QUALITY then p\<lparr>tp_qual := MAX_QUALITY\<rparr> else p)"

text \<open>
  Modelled from the spec: "if eligiblePersons is non-empty, only matching ids are
  candidate destinations"; with the empty set every person is one.
\<close>

definition eligible :: "nat list \<Rightarrow> nat \<Rightarrow> bool" where
  "eligible eligiblePersons i = (eligiblePersons = [] \<or> List.member eligiblePersons i)"

text \<open>
  Modelled from the spec: "replacement occurs iff the new quality strictly exceeds the
  stored quality".
\<close>

definition replaces :: "TrackPoint \<Rightarrow> TrackPoint \<Rightarrow> bool" where
  "replaces point stored = (tp_qual point > tp_qual stored)"

text \<open>Modelled from the spec: the accepted point takes the place of the stored one.\<close>

definition replacePoint :: "TrackPerson \<Rightarrow> int \<Rightarrow> TrackPoint \<Rightarrow> TrackPerson" where
  "replacePoint pers frame point =
     pers\<lparr>tpers_points := (tpers_points pers)[nat (frame - tpers_firstFrame pers) := acceptPoint point]\<rparr>"

text \<open>
  Modelled from the spec: \<^verbatim>\<open>PersonStorage::addPoint\<close>, the cases (a), (b) and (c) of
  section 4.1 in this order.
\<close>

definition addPoint ::
  "TrackPoint \<Rightarrow> int \<Rightarrow> nat list \<Rightarrow> 'reco \<Rightarrow> nat option \<Rightarrow> PersonStorage \<Rightarrow> PersonStorage \<times> nat option"
where
  "addPoint point frame eligiblePersons recoMethod dest store =
     (case (case dest of
              None \<Rightarrow> None
            | Some i \<Rightarrow> if i < length store \<and> eligible eligiblePersons i then Some i else None) of
        Some i \<Rightarrow>
          if trackPointExist (store ! i) frame then
            (if replaces point (trackPointAt (store ! i) frame)
             then (store[i := replacePoint (store ! i) frame point], Some i)
             else (store, Some i))
          else if lastFrame (store ! i) = frame - 1 then
            (store[i := append_point (acceptPoint point) (store ! i)], Some i)
          else if eligiblePersons = [] then
            (addPerson (mkTrackPerson (int (length store)) frame (acceptPoint point)) store, None)
          else (store, None)
      | None \<Rightarrow>
          if eligiblePersons = [] then
            (addPerson (mkTrackPerson (int (length store)) frame (acceptPoint point)) store, None)
          else (store, None))"

text \<open>
  \<^verbatim>\<open>Petrack::addOrMoveManualTrackPoint\<close> (petrack.cpp): the point is built with quality
  110 and handed to \<^verbatim>\<open>addPoint\<close> with the current frame, the user's selection and the
  recognition method; the function returns \<^verbatim>\<open>pers\<close>, which starts as \<open>-1\<close>. The call of
  \<^verbatim>\<open>updateControlWidget\<close> only refreshes the display.
\<close>

definition manualQuality :: int where
  "manualQuality = 110"

definition addOrMoveManualTrackPoint ::
  "real \<times> real \<Rightarrow> int \<Rightarrow> nat list \<Rightarrow> 'reco \<Rightarrow> nat option \<Rightarrow> PersonStorage \<Rightarrow> PersonStorage \<times> int"
where
  "addOrMoveManualTrackPoint pos currentFrameNum pedestrianUserSelection recoMethod dest store =
     (let tP = mkTrackPoint pos manualQuality;
          (store', pers) = addPoint tP currentFrameNum pedestrianUserSelection recoMethod dest store
      in (store', case pers of None \<Rightarrow> - 1 | Some i \<Rightarrow> int i))"

subsection \<open>\<^verbatim>\<open>Petrack::skipToFrameFromTrajectory\<close> (petrack.cpp)\<close>

text \<open>
  \<^verbatim>\<open>getProximalPersons\<close> belongs to the store and is a parameter here; an entry of its
  result names a person and a frame. What the function does to the rest of the
  program is a call of \<^verbatim>\<open>mPlayerWidget->skipToFrame\<close> or the warning dialog; the model
  returns the list of these effects.
\<close>

record FrameRange =
  fr_before :: int
  fr_after :: int
  fr_current :: int

record PersonFrame =
  pf_personID :: nat
  pf_frame :: int

datatype effect = SkipToFrame int | WarnTooManyTrajectories

definition skipToFrameFromTrajectory ::
  "(real \<times> real \<Rightarrow> nat list \<Rightarrow> FrameRange \<Rightarrow> PersonStorage \<Rightarrow> PersonFrame list) \<Rightarrow>
   real \<times> real \<Rightarrow> nat list \<Rightarrow> int \<Rightarrow> int \<Rightarrow> int \<Rightarrow> PersonStorage \<Rightarrow> effect list"
where
  "skipToFrameFromTrajectory getProximalPersons pos peds before after currFrame store =
     (let frameRange = \<lparr>fr_before = before, fr_after = after, fr_current = currFrame\<rparr>;
          res = getProximalPersons pos peds frameRange store
      in if length res = 1 then [SkipToFrame (pf_frame (hd res))]
         else if length res > 1 then [WarnTooManyTrajectories]
         else [])"

text \<open>
  The playback position after the effects, for a player whose \<^verbatim>\<open>skipToFrame\<close> moves to
  the frame it is given (the player widget is not among the source files).
\<close>

fun playerPos :: "int \<Rightarrow> effect list \<Rightarrow> int" where
  "playerPos p [] = p"
| "playerPos p (SkipToFrame f # es) = playerPos f es"
| "playerPos p (WarnTooManyTrajectories # es) = playerPos p es"

subsection \<open>\<^verbatim>\<open>Petrack::getHeadSize\<close> (petrack.cpp)\<close>

text \<open>
  The function computes in two number formats: \<^verbatim>\<open>cv::Point2f\<close> and \<^verbatim>\<open>cv::Point3f\<close> hold
  floats, everything else is a double, and the result depends on how each operation
  rounds. The model does not fix the numbers: \<open>'f\<close> are the values of a float, \<open>'d\<close> those
  of a double (infinities and NaN among them), and the operations that the code applies
  to them are the fields of an \<open>arithmetic\<close>. What is proved of \<^verbatim>\<open>getHeadSize\<close> is proved
  for every arithmetic, so also for that of the machine.

  \<open>f_of_d\<close> is the conversion of a double to a float, as the constructors of the points
  do it, \<open>d_of_f\<close> the promotion of a float; \<open>d_of_stored\<close> is the double that a track point
  or a person holds (the model of the store keeps it as a real number); \<open>d_pow2\<close> is
  \<^verbatim>\<open>pow(x, 2)\<close>; \<open>int_of_d\<close> is the cast \<^verbatim>\<open>(int)\<close>, which has no defined result (\<open>None\<close>) for a
  double outside the range of \<^verbatim>\<open>int\<close>.
\<close>

record ('f, 'd) arithmetic =
  f_of_d :: "'d \<Rightarrow> 'f"
  d_of_f :: "'f \<Rightarrow> 'd"
  d_of_stored :: "real \<Rightarrow> 'd"
  d_of_int :: "int \<Rightarrow> 'd"
  d_half :: 'd
  f_sub :: "'f \<Rightarrow> 'f \<Rightarrow> 'f"
  d_add :: "'d \<Rightarrow> 'd \<Rightarrow> 'd"
  d_sub :: "'d \<Rightarrow> 'd \<Rightarrow> 'd"
  d_mul :: "'d \<Rightarrow> 'd \<Rightarrow> 'd"
  d_div :: "'d \<Rightarrow> 'd \<Rightarrow> 'd"
  d_pow2 :: "'d \<Rightarrow> 'd"
  d_sqrt :: "'d \<Rightarrow> 'd"
  d_lt :: "'d \<Rightarrow> 'd \<Rightarrow> bool"
  int_of_d :: "'d \<Rightarrow> int option"

text \<open>
  What the function reads from the rest of the program: the dimension of the
  calibration, the two projections of the extrinsic calibration (\<^verbatim>\<open>get3DPoint\<close> takes a
  \<^verbatim>\<open>cv::Point2f\<close> and a height and returns a \<^verbatim>\<open>cv::Point3f\<close>, \<^verbatim>\<open>getImagePoint\<close> takes a
  \<^verbatim>\<open>cv::Point3f\<close> and returns a \<^verbatim>\<open>cv::Point2f\<close>), the default height, the camera altitude,
  the scale of the 2D calibration, the cached head size \<^verbatim>\<open>mHeadSize\<close>, and the constants
  \<^verbatim>\<open>HEAD_SIZE\<close> and \<^verbatim>\<open>MIN_HEIGHT\<close>, which are defined in a header that is not among the
  source files.
\<close>

record ('f, 'd) headSizeEnv =
  hs_calibCoordDimension :: int
  get3DPoint :: "'f \<times> 'f \<Rightarrow> 'd \<Rightarrow> 'f \<times> 'f \<times> 'f"
  hs_getImagePoint :: "'f \<times> 'f \<times> 'f \<Rightarrow> 'f \<times> 'f"
  defaultHeight :: 'd
  cameraAltitude :: 'd
  cmPerPixel :: 'd
  mHeadSize :: 'd
  HEAD_SIZE :: 'd
  MIN_HEIGHT :: 'd

text \<open>\<^verbatim>\<open>std::max(a, b)\<close> is \<^verbatim>\<open>(a < b) ? b : a\<close>.\<close>

definition stdMax :: "('f, 'd) arithmetic \<Rightarrow> 'd \<Rightarrow> 'd \<Rightarrow> 'd" where
  "stdMax ar a b = (if d_lt ar a b then b else a)"

text \<open>
  \<^verbatim>\<open>sqrt(pow(q.x - p.x, 2) + pow(q.y - p.y, 2))\<close> for two \<^verbatim>\<open>cv::Point2f\<close>: the differences
  are taken in float, the rest in double.
\<close>

definition pixelDistance :: "('f, 'd) arithmetic \<Rightarrow> 'f \<times> 'f \<Rightarrow> 'f \<times> 'f \<Rightarrow> 'd" where
  "pixelDistance ar p q =
     d_sqrt ar (d_add ar (d_pow2 ar (d_of_f ar (f_sub ar (fst q) (fst p))))
                         (d_pow2 ar (d_of_f ar (f_sub ar (snd q) (snd p)))))"

text \<open>
  The function, statement by statement. \<^verbatim>\<open>p3d.x + HEAD_SIZE * 0.5\<close> is a sum of doubles
  that the constructor of \<^verbatim>\<open>cv::Point3f\<close> converts to a float; \<^verbatim>\<open>diff\<close> is an \<^verbatim>\<open>int\<close> and is
  converted back to a double on return. The result is \<open>None\<close> where the cast has no
  defined result.
\<close>

definition getHeadSize ::
  "('f, 'd) arithmetic \<Rightarrow> ('f, 'd) headSizeEnv \<Rightarrow> PersonStorage \<Rightarrow> bool \<Rightarrow> int \<Rightarrow> int \<Rightarrow> 'd option"
where
  "getHeadSize ar env store posGiven pers frame =
     (if pers \<ge> 0 \<and> pers < int (length store) \<and> trackPointExist (store ! nat pers) frame then
        (if hs_calibCoordDimension env = 0 then
           (let tp = trackPointAt (store ! nat pers) frame;
                p3d = get3DPoint env
                        (f_of_d ar (d_of_stored ar (tp_x tp)), f_of_d ar (d_of_stored ar (tp_y tp)))
                        (defaultHeight env);
                px = fst p3d; py = fst (snd p3d); pz = snd (snd p3d);
                p3d_x1 = hs_getImagePoint env
                   (f_of_d ar (d_add ar (d_of_f ar px) (d_mul ar (HEAD_SIZE env) (d_half ar))), py, pz);
                p3d_x2 = hs_getImagePoint env
                   (f_of_d ar (d_sub ar (d_of_f ar px) (d_mul ar (HEAD_SIZE env) (d_half ar))), py, pz);
                p3d_y1 = hs_getImagePoint env
                   (px, f_of_d ar (d_add ar (d_of_f ar py) (d_mul ar (HEAD_SIZE env) (d_half ar))), pz);
                p3d_y2 = hs_getImagePoint env
                   (px, f_of_d ar (d_sub ar (d_of_f ar py) (d_mul ar (HEAD_SIZE env) (d_half ar))), pz)
            in case int_of_d ar
                      (stdMax ar (pixelDistance ar p3d_x1 p3d_x2) (pixelDistance ar p3d_y1 p3d_y2)) of
                 None \<Rightarrow> None
               | Some diff \<Rightarrow> Some (d_of_int ar diff))
         else
           (let z = d_of_stored ar (snd (snd (tp_sp (trackPointAt (store ! nat pers) frame))));
                h = d_of_stored ar (tpers_height (store ! nat pers))
            in if d_lt ar (d_of_int ar 0) z then
                 Some (d_div ar (d_div ar (d_mul ar (HEAD_SIZE env) (cameraAltitude env)) z)
                         (cmPerPixel env))
               else if d_lt ar (MIN_HEIGHT env) h then
                 Some (d_div ar
                         (d_div ar (d_mul ar (HEAD_SIZE env) (cameraAltitude env))
                            (d_sub ar (cameraAltitude env) h))
                         (cmPerPixel env))
               else Some (mHeadSize env)))
      else if posGiven then Some (mHeadSize env)
      else Some (mHeadSize env))"

text \<open>
  The two pixel distances that the claim speaks of: between the images of the two 3D
  points half a head size to either side of the estimated head position along x, and
  along y.
\<close>

definition headPosition :: "('f, 'd) arithmetic \<Rightarrow> ('f, 'd) headSizeEnv \<Rightarrow> TrackPoint \<Rightarrow> 'f \<times> 'f \<times> 'f" where
  "headPosition ar env tp =
     get3DPoint env (f_of_d ar (d_of_stored ar (tp_x tp)), f_of_d ar (d_of_stored ar (tp_y tp)))
       (defaultHeight env)"

definition halfHead :: "('f, 'd) arithmetic \<Rightarrow> ('f, 'd) headSizeEnv \<Rightarrow> 'd" where
  "halfHead ar env = d_mul ar (HEAD_SIZE env) (d_half ar)"

definition plusHalfHead :: "('f, 'd) arithmetic \<Rightarrow> ('f, 'd) headSizeEnv \<Rightarrow> 'f \<Rightarrow> 'f" where
  "plusHalfHead ar env v = f_of_d ar (d_add ar (d_of_f ar v) (halfHead ar env))"

definition minusHalfHead :: "('f, 'd) arithmetic \<Rightarrow> ('f, 'd) headSizeEnv \<Rightarrow> 'f \<Rightarrow> 'f" where
  "minusHalfHead ar env v = f_of_d ar (d_sub ar (d_of_f ar v) (halfHead ar env))"

definition horizontalDelta :: "('f, 'd) arithmetic \<Rightarrow> ('f, 'd) headSizeEnv \<Rightarrow> TrackPoint \<Rightarrow> 'd" where
  "horizontalDelta ar env tp =
     (case headPosition ar env tp of
        (x, y, z) \<Rightarrow>
          pixelDistance ar (hs_getImagePoint env (plusHalfHead ar env x, y, z))
                           (hs_getImagePoint env (minusHalfHead ar env x, y, z)))"

definition verticalDelta :: "('f, 'd) arithmetic \<Rightarrow> ('f, 'd) headSizeEnv \<Rightarrow> TrackPoint \<Rightarrow> 'd" where
  "verticalDelta ar env tp =
     (case headPosition ar env tp of
        (x, y, z) \<Rightarrow>
          pixelDistance ar (hs_getImagePoint env (x, plusHalfHead ar env y, z))
                           (hs_getImagePoint env (x, minusHalfHead ar env y, z)))"

subsection \<open>\<^verbatim>\<open>Petrack::importTracker\<close> (petrack.cpp)\<close>

text \<open>
  The part of the program state that the import touches, and the dialogs it can raise.
  \<^verbatim>\<open>mTracker->reset()\<close> is counted, since the tracker itself is not modelled.
\<close>

datatype dialog =
  CannotOpen
| UnsupportedTrcVersion
| Import3DFromTxt
| InterpretAsMetres
| DuplicateInTxt int int

record petrack =
  mPersonStorage :: PersonStorage
  trcVersion :: int
  mTrackChanged :: bool
  trackerResets :: nat
  dialogs :: "dialog list"
  mTrcFileName :: string

text \<open>
  The branch for a \<^verbatim>\<open>.trc\<close> file. The file enters by whether it could be opened, its
  first line, and the number that \<^verbatim>\<open>in >> sz\<close> reads after a version line;
  \<^verbatim>\<open>fromTrc\<close>, which reads the next person from the stream in the format of the current
  \<^verbatim>\<open>trcVersion\<close>, is a parameter: \<open>fromTrc v i\<close> is the \<open>i\<close>-th person of the file.
\<close>

definition readPersons ::
  "(int \<Rightarrow> nat \<Rightarrow> TrackPerson) \<Rightarrow> string \<Rightarrow> int \<Rightarrow> int \<Rightarrow> petrack \<Rightarrow> petrack"
where
  "readPersons fromTrc dest version sz st =
     st\<lparr>trcVersion := version,
        mPersonStorage := fold addPerson (map (fromTrc version) [0..<nat sz]) (mPersonStorage st),
        mTrcFileName := dest\<rparr>"

definition importTracker_trc ::
  "(int \<Rightarrow> nat \<Rightarrow> TrackPerson) \<Rightarrow> string \<Rightarrow> bool \<Rightarrow> string \<Rightarrow> int \<Rightarrow> petrack \<Rightarrow> petrack"
where
  "importTracker_trc fromTrc dest opened firstLine nextInt st =
     (if \<not> opened then st\<lparr>dialogs := dialogs st @ [CannotOpen]\<rparr>
      else
        (let st1 = st\<lparr>mTrackChanged := True, trackerResets := trackerResets st + 1\<rparr>
         in case toInt firstLine of
              Some sz \<Rightarrow> readPersons fromTrc dest 1 sz st1
            | None \<Rightarrow>
                if containsCI ''version 4'' firstLine then readPersons fromTrc dest 4 nextInt st1
                else if containsCI ''version 3'' firstLine then readPersons fromTrc dest 3 nextInt st1
                else if containsCI ''version 2'' firstLine then readPersons fromTrc dest 2 nextInt st1
                else st1\<lparr>dialogs := dialogs st1 @ [UnsupportedTrcVersion]\<rparr>))"

text \<open>
  The branch for a \<^verbatim>\<open>.txt\<close> file. \<^verbatim>\<open>personData\<close>, an
  \<^verbatim>\<open>unordered_map<int, map<int, Vec3F>>\<close>, is a list of persons with their frame data;
  the frame data are kept in the order of the frames, as \<^verbatim>\<open>std::map\<close> iterates, and the
  persons in the order of their first line (the order of an \<^verbatim>\<open>unordered_map\<close> is not
  specified).
\<close>

type_synonym frameData = "(int \<times> Vec3F) list"

type_synonym personData = "(int \<times> frameData) list"

text \<open>\<^verbatim>\<open>personData[personNr].find(frameNr) != personData[personNr].end()\<close>\<close>

definition frameFound :: "personData \<Rightarrow> int \<Rightarrow> int \<Rightarrow> bool" where
  "frameFound pd personNr frameNr =
     (case map_of pd personNr of
        None \<Rightarrow> False
      | Some fd \<Rightarrow> map_of fd frameNr \<noteq> None)"

fun setFrameData :: "int \<Rightarrow> frameData \<Rightarrow> personData \<Rightarrow> personData" where
  "setFrameData personNr fd [] = [(personNr, fd)]"
| "setFrameData personNr fd ((nr, gd) # rest) =
     (if nr = personNr then (personNr, fd) # rest else (nr, gd) # setFrameData personNr fd rest)"

text \<open>\<^verbatim>\<open>personData[personNr][frameNr] = Vec3F(x, y, z)\<close>\<close>

definition storeRecord :: "personData \<Rightarrow> int \<Rightarrow> int \<Rightarrow> Vec3F \<Rightarrow> personData" where
  "storeRecord pd personNr frameNr v =
     setFrameData personNr
       (insort_key fst (frameNr, v) (case map_of pd personNr of None \<Rightarrow> [] | Some fd \<Rightarrow> fd)) pd"

text \<open>
  The loop over the lines. Reading the five numbers of a line from a \<^verbatim>\<open>QTextStream\<close> is
  the parameter \<open>parse\<close>. The result is the list of dialogs raised up to the critical one
  when the loop returns from the function, and the state of the loop when it ends.
\<close>

record txtScan =
  ts_headerline :: string
  ts_unitFound :: bool
  ts_conversionFactorToCM :: real
  ts_personData :: personData
  ts_dialogs :: "dialog list"

fun scanTxtLines ::
  "(string \<Rightarrow> int \<times> int \<times> real \<times> real \<times> real) \<Rightarrow> string list \<Rightarrow> txtScan \<Rightarrow> dialog list + txtScan"
where
  "scanTxtLines parse [] s = Inr s"
| "scanTxtLines parse (line # rest) s =
     (if startsWithCI ''#'' line then scanTxtLines parse rest (s\<lparr>ts_headerline := line\<rparr>)
      else
        (let s1 = (if \<not> ts_unitFound s \<and> \<not> contains ''cm'' (ts_headerline s)
                   then s\<lparr>ts_conversionFactorToCM := 100, ts_unitFound := True,
                          ts_dialogs := ts_dialogs s @ [InterpretAsMetres]\<rparr>
                   else s);
             (personNr, frameNr, x, y, z) = parse line;
             x' = x * ts_conversionFactorToCM s1;
             y' = y * ts_conversionFactorToCM s1;
             z' = z * ts_conversionFactorToCM s1
         in if \<not> frameFound (ts_personData s1) personNr frameNr
            then scanTxtLines parse rest
                   (s1\<lparr>ts_personData := storeRecord (ts_personData s1) personNr frameNr (x', y', z')\<rparr>)
            else Inl (ts_dialogs s1 @ [DuplicateInTxt personNr frameNr])))"

definition scanStart :: txtScan where
  "scanStart =
     \<lparr>ts_headerline = [], ts_unitFound = False, ts_conversionFactorToCM = 1,
      ts_personData = [], ts_dialogs = []\<rparr>"

text \<open>
  What the import reads from the calibration and the control widget: the dimension of
  the calibration, the projection \<^verbatim>\<open>getImagePoint\<close> of the extrinsic calibration, the
  projection \<^verbatim>\<open>getPosImage\<close> of the 2D calibration, and the third translation parameter.
  The product \<^verbatim>\<open>x * conversionFactorToCM\<close> and the image points are floats in the code
  and real numbers here; their rounding is not modelled, and the test for a repeated
  record does not read them.
\<close>

record calibration =
  calibCoordDimension :: int
  getImagePoint :: "Vec3F \<Rightarrow> real \<times> real"
  getPosImage :: "real \<times> real \<Rightarrow> real \<Rightarrow> real \<times> real"
  trans3 :: real

text \<open>
  The second loop: one person per entry of \<^verbatim>\<open>personData\<close>, its points the images of the
  real-world positions. An entry always has a first frame, since an entry is only made
  together with a record; the code reads \<^verbatim>\<open>frameData.begin()\<close> without a check, and the
  model says nothing for an entry without frames.
\<close>

definition pixelPoint :: "calibration \<Rightarrow> int \<times> Vec3F \<Rightarrow> TrackPoint" where
  "pixelPoint cal entry =
     (let rx = fst (snd entry); ry = fst (snd (snd entry)); rz = snd (snd (snd entry));
          p2d = (if calibCoordDimension cal = 0 then getImagePoint cal (rx, ry, rz)
                 else getPosImage cal (rx, ry) rz)
      in (mkTrackPoint p2d 100)\<lparr>tp_sp := (rx, ry, - trans3 cal - rz)\<rparr>)"

fun personFromFrameData :: "calibration \<Rightarrow> int \<Rightarrow> frameData \<Rightarrow> TrackPerson" where
  "personFromFrameData cal persNr (first # others) =
     fold append_point (map (pixelPoint cal) others)
       ((mkTrackPerson persNr (fst first) (pixelPoint cal first))
          \<lparr>tpers_height := snd (snd (snd first))\<rparr>)"

definition commitPersons :: "calibration \<Rightarrow> personData \<Rightarrow> PersonStorage \<Rightarrow> PersonStorage" where
  "commitPersons cal pd store =
     fold (\<lambda>entry. addPerson (personFromFrameData cal (fst entry) (snd entry))) pd store"

definition importTracker_txt ::
  "calibration \<Rightarrow> (string \<Rightarrow> int \<times> int \<times> real \<times> real \<times> real) \<Rightarrow> string \<Rightarrow> bool \<Rightarrow> string list \<Rightarrow>
   petrack \<Rightarrow> petrack"
where
  "importTracker_txt cal parse dest opened lines st =
     (let st0 = st\<lparr>dialogs := dialogs st @ [Import3DFromTxt]\<rparr>
      in if \<not> opened then st0\<lparr>dialogs := dialogs st0 @ [CannotOpen]\<rparr>
         else
           (let st1 = st0\<lparr>mTrackChanged := True, trackerResets := trackerResets st0 + 1\<rparr>
            in case scanTxtLines parse lines scanStart of
                 Inl ds \<Rightarrow> st1\<lparr>dialogs := dialogs st1 @ ds\<rparr>
               | Inr s \<Rightarrow>
                   st1\<lparr>dialogs := dialogs st1 @ ts_dialogs s,
                       mPersonStorage := commitPersons cal (ts_personData s) (mPersonStorage st1),
                       mTrcFileName := dest\<rparr>))"

text \<open>
  The (person, frame) pairs of the records of a file, in the order of the lines; a line
  that starts with \<^verbatim>\<open>#\<close> is no record.
\<close>

definition recordKeys :: "(string \<Rightarrow> int \<times> int \<times> real \<times> real \<times> real) \<Rightarrow> string list \<Rightarrow> (int \<times> int) list" where
  "recordKeys parse lines =
     map (\<lambda>line. (fst (parse line), fst (snd (parse line))))
       (filter (\<lambda>line. \<not> startsWithCI ''#'' line) lines)"

text \<open>
  No record of the lines is a duplicate of an earlier one or of an entry that
  \<^verbatim>\<open>personData\<close> already holds.
\<close>

definition fresh ::
  "(string \<Rightarrow> int \<times> int \<times> real \<times> real \<times> real) \<Rightarrow> string list \<Rightarrow> personData \<Rightarrow> bool"
where
  "fresh parse ls pd =
     (distinct (recordKeys parse ls) \<and>
      (\<forall>k \<in> set (recordKeys parse ls). \<not> frameFound pd (fst k) (snd k)))"

subsection \<open>\<^verbatim>\<open>Petrack::updateImage\<close> (petrack.cpp): the body of one update\<close>

text \<open>
  The filters, the tracker, the recogniser and the store are not among the source
  files; the body only calls them. They are parameters of the model: the five filter
  algorithms as functions on images (the background filter is told whether it has been
  reset in this run), the size of an image, the tracker with its own state \<open>'trk\<close>, and
  the operations of the store. Modelled from the spec: \<^verbatim>\<open>Tracker::track\<close> "produces or
  updates track points with tracker-derived quality", that is, it returns the store
  with the tracked points of the frame in it; \<^verbatim>\<open>PersonStorage::addPoints\<close> hands the
  recognised points to the store. The other arguments of \<^verbatim>\<open>track\<close> and \<^verbatim>\<open>getMarkerPos\<close> are
  settings that do not change during the body.
\<close>

record ('img, 'trk) collaborators =
  swapFilter :: "'img \<Rightarrow> 'img"
  brightContrastFilter :: "'img \<Rightarrow> 'img"
  borderFilter :: "'img \<Rightarrow> 'img"
  calibFilter :: "'img \<Rightarrow> 'img"
  backgroundFilter :: "bool \<Rightarrow> 'img \<Rightarrow> 'img"
  imgCols :: "'img \<Rightarrow> int"
  imgRows :: "'img \<Rightarrow> int"
  trackerReset :: "'trk \<Rightarrow> 'trk"
  trackerResize :: "int \<Rightarrow> int \<Rightarrow> 'trk \<Rightarrow> 'trk"
  track :: "'trk \<Rightarrow> 'img \<Rightarrow> Rect \<Rightarrow> int \<Rightarrow> PersonStorage \<Rightarrow> 'trk \<times> PersonStorage"
  getMarkerPos :: "'img \<Rightarrow> QRect \<Rightarrow> TrackPoint list"
  calcPersonPos :: "'img \<Rightarrow> QRect \<Rightarrow> TrackPoint list \<Rightarrow> TrackPoint list"
  addPoints :: "TrackPoint list \<Rightarrow> int \<Rightarrow> PersonStorage \<Rightarrow> PersonStorage"
  purge :: "int \<Rightarrow> PersonStorage \<Rightarrow> PersonStorage"
  calcPosition :: "int \<Rightarrow> PersonStorage \<Rightarrow> PersonStorage"

text \<open>
  What one run of the body is given: the argument \<^verbatim>\<open>imageChanged\<close>, the \<^verbatim>\<open>changed()\<close>
  flags of the filters as the body stores them at its start, the settings of the
  control and stereo widgets, the two regions of interest (already moved by the border
  and rounded), and the preprocessor switch for stereo (\<open>stereoBuild\<close> is false where
  \<^verbatim>\<open>STEREO_DISABLED\<close> is defined). \<open>backgroundChanged\<close> is \<^verbatim>\<open>mBackgroundFilter.changed()\<close> as
  the body finds it; a \<^verbatim>\<open>reset()\<close> of the background filter sets it, as the comment at
  that call says. \<open>markerMethod\<close> says that the recognition method is one of the six for
  which \<^verbatim>\<open>getMarkerPos\<close> is called.
\<close>

record update =
  imageChanged :: bool
  brightContrastChanged :: bool
  swapChanged :: bool
  borderChanged :: bool
  calibChanged :: bool
  backgroundFileGiven :: bool
  backgroundChanged :: bool
  stereoBuild :: bool
  mStereoContext :: bool
  stereoUseForHeightEver :: bool
  stereoUseForHeight :: bool
  stereoUseForReco :: bool
  onlineTracking :: bool
  recoStep :: int
  frameNum :: int
  cameraLiveStream :: bool
  performRecognition :: bool
  markerMethod :: bool
  trackingRoi :: QRect
  recognitionRoi :: QRect

text \<open>
  The state that the body reads and writes: the program state of the import, and with
  it the current image \<^verbatim>\<open>mImg\<close>, the filtered image, the last result of each filter, the
  tracker, the two static variables and the flag \<^verbatim>\<open>mRecognitionChanged\<close>. The stereo
  context and the widgets are not part of it, so the calls that only touch them (the
  disparity, the control image, the display of the image) do not appear.
\<close>

record ('img, 'trk) pipeline = petrack +
  mImg :: 'img
  mImgFiltered :: 'img
  swapLast :: 'img
  brightContrastLast :: 'img
  borderLast :: 'img
  calibLast :: 'img
  backgroundLast :: 'img
  mTracker :: 'trk
  lastRecoFrame :: int
  borderChangedForTracking :: bool
  mRecognitionChanged :: bool

text \<open>
  The filters, "Reihenfolge wichtig": each is applied to the result of the one before
  it, or its last result is taken. After either, the last result of the filter is the
  image it gave.
\<close>

definition backgroundReset :: "update \<Rightarrow> bool" where
  "backgroundReset u =
     ((brightContrastChanged u \<or> swapChanged u \<or> borderChanged u \<or> calibChanged u) \<and>
      \<not> backgroundFileGiven u)"

definition filterImage ::
  "('img, 'trk) collaborators \<Rightarrow> update \<Rightarrow> ('img, 'trk) pipeline \<Rightarrow> ('img, 'trk) pipeline"
where
  "filterImage c u s =
     (let i1 = (if imageChanged u \<or> swapChanged u then swapFilter c (mImg s) else swapLast s);
          i2 = (if imageChanged u \<or> swapChanged u \<or> brightContrastChanged u
                then brightContrastFilter c i1 else brightContrastLast s);
          i3 = (if imageChanged u \<or> swapChanged u \<or> brightContrastChanged u \<or> borderChanged u
                then borderFilter c i2 else borderLast s);
          i4 = (if imageChanged u \<or> swapChanged u \<or> brightContrastChanged u \<or> borderChanged u \<or>
                   calibChanged u
                then calibFilter c i3 else calibLast s);
          i5 = (if imageChanged u \<or> backgroundChanged u \<or> backgroundReset u
                then backgroundFilter c (backgroundReset u) i4 else backgroundLast s)
      in s\<lparr>mImgFiltered := i5, swapLast := i1, brightContrastLast := i2, borderLast := i3,
            calibLast := i4, backgroundLast := i5\<rparr>)"

text \<open>
  "delete track list, if intrinsic param have changed"; otherwise, with stereo, the
  positions of the stored points are recalculated. Modelled from the spec:
  \<^verbatim>\<open>PersonStorage::clear\<close> "empties the store". Then the change of the border is noted for
  the tracker.
\<close>

definition maintainStore ::
  "('img, 'trk) collaborators \<Rightarrow> update \<Rightarrow> ('img, 'trk) pipeline \<Rightarrow> ('img, 'trk) pipeline"
where
  "maintainStore c u s =
     (let s1 = (if calibChanged u \<and> mPersonStorage s \<noteq> []
                then s\<lparr>mPersonStorage := [], mTracker := trackerReset c (mTracker s)\<rparr>
                else if stereoBuild u \<and> mStereoContext u \<and> stereoUseForHeightEver u \<and>
                        stereoUseForHeight u
                then s\<lparr>mPersonStorage := calcPosition c (frameNum u) (mPersonStorage s)\<rparr>
                else s)
      in if borderChanged u then s1\<lparr>borderChangedForTracking := True\<rparr> else s1)"

text \<open>
  The body has no \<^verbatim>\<open>try\<close>: an exception that a call throws leaves the body at once, with
  the state as it is then. The one call of the body whose code is among the source
  files is \<^verbatim>\<open>getRoi\<close>; its last statement \<^verbatim>\<open>img(rect)\<close> throws a \<^verbatim>\<open>cv::Exception\<close> unless the
  rectangle lies inside the image (the assertion of \<^verbatim>\<open>cv::Mat::operator()\<close>). The
  collaborators are taken to return.
\<close>

datatype 's outcome = Completed 's | Thrown 's

text \<open>"tracking vor recognition": the tracking update.\<close>

definition trackingUpdate ::
  "('img, 'trk) collaborators \<Rightarrow> update \<Rightarrow> ('img, 'trk) pipeline \<Rightarrow> ('img, 'trk) pipeline outcome"
where
  "trackingUpdate c u s =
     (if (mTrackChanged s \<or> imageChanged u) \<and> onlineTracking u then
        (let s1 = (if borderChangedForTracking s
                   then s\<lparr>mTracker := trackerResize c (imgCols c (mImgFiltered s))
                                          (imgRows c (mImgFiltered s)) (mTracker s)\<rparr>
                   else s);
             rect = getRoi (imgCols c (mImgFiltered s)) (imgRows c (mImgFiltered s))
                      (trackingRoi u) True
         in if \<not> insideImage (imgCols c (mImgFiltered s)) (imgRows c (mImgFiltered s)) rect
            then Thrown s1
            else
              (case track c (mTracker s1) (mImgFiltered s) rect (frameNum u) (mPersonStorage s1) of
                 (trk, store) \<Rightarrow>
                   Completed (s1\<lparr>mTracker := trk, mPersonStorage := store, mTrackChanged := False,
                                 borderChangedForTracking := False\<rparr>)))
      else Completed s)"

text \<open>The recognition update, "gated to run only every N frames or on relevant state changes".\<close>

definition recognitionDue :: "update \<Rightarrow> ('img, 'trk) pipeline \<Rightarrow> bool" where
  "recognitionDue u s =
     (((lastRecoFrame s + recoStep u \<le> frameNum u \<or> lastRecoFrame s - recoStep u \<ge> frameNum u) \<and>
       imageChanged u) \<or>
      cameraLiveStream u \<or> swapChanged u \<or> brightContrastChanged u \<or> borderChanged u \<or>
      calibChanged u \<or> mRecognitionChanged s)"

definition recognisedPoints :: "('img, 'trk) collaborators \<Rightarrow> update \<Rightarrow> 'img \<Rightarrow> TrackPoint list" where
  "recognisedPoints c u img =
     (let persList = (if markerMethod u then getMarkerPos c img (recognitionRoi u) else [])
      in if stereoBuild u \<and> mStereoContext u \<and> stereoUseForReco u
         then calcPersonPos c img (recognitionRoi u) persList else persList)"

definition recognitionUpdate ::
  "('img, 'trk) collaborators \<Rightarrow> update \<Rightarrow> ('img, 'trk) pipeline \<Rightarrow> ('img, 'trk) pipeline"
where
  "recognitionUpdate c u s =
     (if recognitionDue u s then
        (let s1 = (if performRecognition u then
                     (let persList = recognisedPoints c u (mImgFiltered s);
                          added = addPoints c persList (frameNum u) (mPersonStorage s);
                          purged = (if mStereoContext u \<and> stereoUseForReco u
                                    then purge c (frameNum u) added else added)
                      in s\<lparr>mPersonStorage := purged, mRecognitionChanged := False\<rparr>)
                   else s)
         in s1\<lparr>lastRecoFrame := frameNum u\<rparr>)
      else s)"

definition updateImageBody ::
  "('img, 'trk) collaborators \<Rightarrow> update \<Rightarrow> ('img, 'trk) pipeline \<Rightarrow> ('img, 'trk) pipeline outcome"
where
  "updateImageBody c u s =
     (case trackingUpdate c u (maintainStore c u (filterImage c u s)) of
        Thrown s' \<Rightarrow> Thrown s'
      | Completed s' \<Rightarrow> Completed (recognitionUpdate c u s'))"












subsection \<open>\<^verbatim>\<open>Petrack::updateImage\<close>: the guard around the body\<close>

text \<open>
  The program runs on one thread; a second call of \<^verbatim>\<open>updateImage\<close> can only arrive from
  inside the body of a running one ("updateValue of control automatically calls
  updateImage"). A request for an update therefore carries whether an image is loaded
  (\<^verbatim>\<open>!mImg.empty() && mImage\<close>), how its body ends if it runs (it returns, or a call in
  it throws, as \<^verbatim>\<open>getRoi\<close> does for a rectangle outside the image), and the requests
  that the body raises while it runs. The static \<^verbatim>\<open>QSemaphore semaphore(1)\<close> is its
  number of free permits: \<^verbatim>\<open>tryAcquire()\<close> takes one if there is one and fails otherwise,
  \<^verbatim>\<open>release()\<close> gives one back. \<^verbatim>\<open>release()\<close> is the last statement of the body and there
  is no \<^verbatim>\<open>try\<close>, so a body that throws does not give the permit back, and the exception
  leaves the call and every body that the call was raised from.

  The trace of a call is \<^verbatim>\<open>resetSavedMarkers\<close>, which runs before the guard, and, if the
  guard is passed, the body between its begin and its end. The result of a call is
  its trace, the free permits after it, and whether an exception leaves it.
\<close>

datatype ending = Returns | Throws

datatype request = Request bool ending "request list"

datatype step = ResetSavedMarkers | PipelineBegin | PipelineEnd | PipelineThrown

fun updateImage :: "nat \<Rightarrow> request \<Rightarrow> step list \<times> nat \<times> bool"
  and raisedCalls :: "nat \<Rightarrow> request list \<Rightarrow> step list \<times> nat \<times> bool"
where
  "updateImage permits (Request imageLoaded ending raised) =
     (if imageLoaded \<and> 0 < permits then
        (case raisedCalls (permits - 1) raised of
           (steps, permits', thrown) \<Rightarrow>
             if thrown \<or> ending = Throws
             then (ResetSavedMarkers # PipelineBegin # steps @ [PipelineThrown], permits', True)
             else (ResetSavedMarkers # PipelineBegin # steps @ [PipelineEnd], permits' + 1, False))
      else ([ResetSavedMarkers], permits, False))"
| "raisedCalls permits [] = ([], permits, False)"
| "raisedCalls permits (r # rs) =
     (case updateImage permits r of
        (steps1, permits1, thrown1) \<Rightarrow>
          if thrown1 then (steps1, permits1, True)
          else
            (case raisedCalls permits1 rs of
               (steps2, permits2, thrown2) \<Rightarrow> (steps1 @ steps2, permits2, thrown2)))"

text \<open>
  The calls that arrive from the event loop, one after the other. An exception that
  leaves a call ends that call; where the program goes on, the next call finds the
  semaphore as it was left.
\<close>

fun eventLoop :: "nat \<Rightarrow> request list \<Rightarrow> step list \<times> nat" where
  "eventLoop permits [] = ([], permits)"
| "eventLoop permits (r # rs) =
     (case updateImage permits r of
        (steps1, permits1, thrown1) \<Rightarrow>
          (case eventLoop permits1 rs of
             (steps2, permits2) \<Rightarrow> (steps1 @ steps2, permits2)))"

text \<open>
  The number of pipelines in progress after a trace that starts with \<open>n\<close> of them in
  progress, and the largest number in progress at any moment of the trace. A pipeline
  that throws is no longer in progress.
\<close>

fun inProgress :: "nat \<Rightarrow> step list \<Rightarrow> nat" where
  "inProgress n [] = n"
| "inProgress n (PipelineBegin # ss) = inProgress (Suc n) ss"
| "inProgress n (PipelineEnd # ss) = inProgress (n - 1) ss"
| "inProgress n (PipelineThrown # ss) = inProgress (n - 1) ss"
| "inProgress n (ResetSavedMarkers # ss) = inProgress n ss"

fun peak :: "nat \<Rightarrow> step list \<Rightarrow> nat" where
  "peak n [] = n"
| "peak n (PipelineBegin # ss) = max n (peak (Suc n) ss)"
| "peak n (PipelineEnd # ss) = max n (peak (n - 1) ss)"
| "peak n (PipelineThrown # ss) = max n (peak (n - 1) ss)"
| "peak n (ResetSavedMarkers # ss) = peak n ss"

text \<open>A request whose body runs, when a permit is free, and throws.\<close>

fun runsAndThrows :: "request \<Rightarrow> bool" where
  "runsAndThrows (Request imageLoaded ending raised) = (imageLoaded \<and> ending = Throws)"

subsection \<open>Example data\<close>

text \<open>
  Two persons that both start at frame 10 with one point each, of quality 50 and 100;
  and a camera far above the scene whose image shows 2 cm of the world per pixel at
  every height, for the import and for the head size.
\<close>

definition twoPersons :: PersonStorage where
  "twoPersons =
     [mkTrackPerson 0 10 (mkTrackPoint (1, 2) 50), mkTrackPerson 1 10 (mkTrackPoint (30, 40) 100)]"

definition orthographic :: calibration where
  "orthographic =
     \<lparr>calibCoordDimension = 0,
      getImagePoint = (\<lambda>q. (fst q / 2, fst (snd q) / 2)),
      getPosImage = (\<lambda>p h. (fst p / 2, snd p / 2)),
      trans3 = - 600\<rparr>"

definition orthographicHeads :: "(real, real) headSizeEnv" where
  "orthographicHeads =
     \<lparr>hs_calibCoordDimension = 0,
      get3DPoint = (\<lambda>p h. (fst p * 2, snd p * 2, h)),
      hs_getImagePoint = (\<lambda>q. (fst q / 2, fst (snd q) / 2)),
      defaultHeight = 180, cameraAltitude = 600, cmPerPixel = 2, mHeadSize = 21 / 2,
      HEAD_SIZE = 21, MIN_HEIGHT = 100\<rparr>"

text \<open>
  The arithmetic that does not round, on real numbers. The float and the double
  arithmetic of the machine agree with it wherever the exact result of an operation is
  a float or a double; this is so in every step of the example below, whose numbers are
  multiples of a quarter below 200, and \<open>110.25\<close> with its square root \<open>10.5\<close>.
\<close>

definition truncated :: "real \<Rightarrow> int" where
  "truncated d = (if 0 \<le> d then \<lfloor>d\<rfloor> else \<lceil>d\<rceil>)"

definition exactArithmetic :: "(real, real) arithmetic" where
  "exactArithmetic =
     \<lparr>f_of_d = (\<lambda>d. d), d_of_f = (\<lambda>f. f), d_of_stored = (\<lambda>r. r), d_of_int = real_of_int,
      d_half = 1 / 2, f_sub = (\<lambda>a b. a - b), d_add = (\<lambda>a b. a + b), d_sub = (\<lambda>a b. a - b),
      d_mul = (\<lambda>a b. a * b), d_div = (\<lambda>a b. a / b), d_pow2 = (\<lambda>a. a * a), d_sqrt = sqrt,
      d_lt = (\<lambda>a b. a < b),
      int_of_d = (\<lambda>d. if INT_MIN \<le> truncated d \<and> truncated d \<le> INT_MAX
                       then Some (truncated d) else None)\<rparr>"

text \<open>
  Collaborators that record what they are given: an image is the list of the filters
  applied to it, 100 columns wide and 100 rows high; the tracker counts its calls and
  adds a person with a point of quality 80 at the frame; recognition finds one point
  of quality 90, and \<^verbatim>\<open>addPoints\<close> adds a person for each point. A program state with
  the first image of a sequence, and an update for frame 7 with tracking and
  recognition switched on.
\<close>

definition recorders :: "(string list, nat) collaborators" where
  "recorders =
     \<lparr>swapFilter = (\<lambda>i. i @ [''swap'']),
      brightContrastFilter = (\<lambda>i. i @ [''brightContrast'']),
      borderFilter = (\<lambda>i. i @ [''border'']),
      calibFilter = (\<lambda>i. i @ [''calib'']),
      backgroundFilter = (\<lambda>reset i. i @ [''background'']),
      imgCols = (\<lambda>i. 100), imgRows = (\<lambda>i. 100),
      trackerReset = (\<lambda>t. 0),
      trackerResize = (\<lambda>w h t. t),
      track = (\<lambda>t i rect frame store. (Suc t, store @ [mkTrackPerson 0 frame (mkTrackPoint (1, 1) 80)])),
      getMarkerPos = (\<lambda>i roi. [mkTrackPoint (2, 2) 90]),
      calcPersonPos = (\<lambda>i roi ps. ps),
      addPoints = (\<lambda>ps frame store. store @ map (mkTrackPerson 1 frame) ps),
      purge = (\<lambda>frame store. store),
      calcPosition = (\<lambda>frame store. store)\<rparr>"

definition firstImage :: "(string list, nat) pipeline" where
  "firstImage =
     \<lparr>mPersonStorage = [], trcVersion = 4, mTrackChanged = False, trackerResets = 0,
      dialogs = [], mTrcFileName = [],
      mImg = [''frame 7''], mImgFiltered = [], swapLast = [], brightContrastLast = [],
      borderLast = [], calibLast = [], backgroundLast = [], mTracker = 0,
      lastRecoFrame = - 10000, borderChangedForTracking = False, mRecognitionChanged = False\<rparr>"

definition newFrame :: update where
  "newFrame =
     \<lparr>imageChanged = True, brightContrastChanged = False, swapChanged = False,
      borderChanged = False, calibChanged = False, backgroundFileGiven = False,
      backgroundChanged = False, stereoBuild = False, mStereoContext = False,
      stereoUseForHeightEver = False, stereoUseForHeight = False, stereoUseForReco = False,
      onlineTracking = True, recoStep = 1, frameNum = 7, cameraLiveStream = False,
      performRecognition = True, markerMethod = True,
      trackingRoi = \<lparr>roi_x = 0, roi_y = 0, roi_width = 100, roi_height = 100\<rparr>,
      recognitionRoi = \<lparr>roi_x = 0, roi_y = 0, roi_width = 100, roi_height = 100\<rparr>\<rparr>"

text \<open>The same update with the tracking region left of the image.\<close>

definition leftOfImage :: update where
  "leftOfImage =
     newFrame\<lparr>trackingRoi := \<lparr>roi_x = - 10, roi_y = 0, roi_width = 5, roi_height = 10\<rparr>\<rparr>"

text \<open>
  A reader for lines of five whole numbers separated by single blanks, and an empty
  program state.
\<close>

definition fiveNumbers :: "string \<Rightarrow> int \<times> int \<times> real \<times> real \<times> real" where
  "fiveNumbers line =
     (case map toInt (split CHR '' '' line) of
        [Some p, Some f, Some x, Some y, Some z] \<Rightarrow> (p, f, real_of_int x, real_of_int y, real_of_int z)
      | _ \<Rightarrow> (0, 0, 0, 0, 0))"

definition emptyProject :: petrack where
  "emptyProject =
     \<lparr>mPersonStorage = [], trcVersion = 0, mTrackChanged = False, trackerResets = 0,
      dialogs = [], mTrcFileName = []\<rparr>"

text \<open>A file in the plain-text form whose last line repeats person 1 at frame 5.\<close>

definition repeatedRecord :: "string list" where
  "repeatedRecord =
     [''# PeTrack project, x/cm y/cm z/cm'', ''1 5 10 20 170'', ''2 5 30 40 180'', ''1 5 11 21 170'']"

text \<open>The persons of a \<^verbatim>\<open>.trc\<close> file for the examples: the \<open>i\<close>-th has the id \<open>i\<close>.\<close>

definition numberedPerson :: "int \<Rightarrow> nat \<Rightarrow> TrackPerson" where
  "numberedPerson version i = mkTrackPerson (int i) 0 (mkTrackPoint (0, 0) 100)"

section \<open>Properties\<close>

subsection \<open>The median of three\<close>

lemma getMedianOf3_is_argument: "getMedianOf3 a b c = a \<or> getMedianOf3 a b c = b \<or> getMedianOf3 a b c = c"
  by (simp add: getMedianOf3_def)

text \<open>
  C10, as amended. For all doubles \<open>a\<close>, \<open>b\<close>, \<open>c\<close> none of which is a NaN (infinities
  included), \<^verbatim>\<open>getMedianOf3(a, b, c)\<close> is the median: it is one of the three arguments,
  at least the minimum and at most the maximum of the other two.
\<close>

theorem getMedianOf3_median:
  assumes "\<not> isnan a" and "\<not> isnan b" and "\<not> isnan c"
  shows "is_median_of3 (getMedianOf3 a b c) a b c"
  using assms
  by (cases a; cases b; cases c)
     (auto simp: getMedianOf3_def is_median_of3_def between_others_def dmin_def dmax_def)

theorem getMedianOf3_median_witness:
  "\<not> isnan (Finite 3) \<and> \<not> isnan NegInf \<and> \<not> isnan (Finite 2) \<and>
   getMedianOf3 (Finite 3) NegInf (Finite 2) = Finite 2 \<and>
   is_median_of3 (Finite 2) (Finite 3) NegInf (Finite 2)"
proof -
  have val: "getMedianOf3 (Finite 3) NegInf (Finite 2) = Finite 2"
    by (simp add: getMedianOf3_def)
  have "is_median_of3 (getMedianOf3 (Finite 3) NegInf (Finite 2)) (Finite 3) NegInf (Finite 2)"
    by (rule getMedianOf3_median) simp_all
  with val show ?thesis by simp
qed

text \<open>
  With a NaN among the arguments the claim as written fails: every comparison is false,
  the function falls through to \<^verbatim>\<open>return c\<close>, and \<open>2\<close> is returned for \<open>(NaN, 1, 2)\<close>,
  which is at most neither of the other two arguments.
\<close>

theorem getMedianOf3_nan_counterexample:
  "getMedianOf3 NaN (Finite 1) (Finite 2) = Finite 2 \<and>
   \<not> is_median_of3 (getMedianOf3 NaN (Finite 1) (Finite 2)) NaN (Finite 1) (Finite 2) \<and>
   \<not> dle (Finite 2) NaN \<and> \<not> dle (Finite 2) (Finite 1)"
  by (simp add: getMedianOf3_def is_median_of3_def between_others_def dmin_def dmax_def)

subsection \<open>Version comparison\<close>

lemma versionParts_Inr:
  "list_all (\<lambda>p. toInt p \<noteq> None) ps \<Longrightarrow> versionParts ps = Inr (map (\<lambda>p. the (toInt p)) ps)"
  by (induction ps) (auto split: option.splits sum.splits)

lemma versionParts_Inl:
  "\<not> list_all (\<lambda>p. toInt p \<noteq> None) ps \<Longrightarrow> versionParts ps = Inl VersionNonNumeric"
  by (induction ps) (auto split: option.splits sum.splits)

lemma length2E: "length xs = 2 \<Longrightarrow> \<exists>a b. xs = [a, b]"
  by (auto simp: numeral_2_eq_2 length_Suc_conv)

lemma length3E: "length xs = 3 \<Longrightarrow> \<exists>a b c. xs = [a, b, c]"
  by (auto simp: numeral_3_eq_3 length_Suc_conv)

lemma compareParts3:
  "compareParts 3 [a1, b1, c1] [a2, b2, c2] 0 = tripleGreater (a1, b1, c1) (a2, b2, c2)"
  by (simp add: numeral_3_eq_3)

lemma padded2: "addPatch [a, b] = [a, b, 0]" "partsTriple [a, b] = (a, b, 0)"
  by (simp_all add: addPatch_def partsTriple_def)

lemma padded3: "addPatch [a, b, c] = [a, b, c]" "partsTriple [a, b, c] = (a, b, c)"
  by (simp_all add: addPatch_def partsTriple_def)

lemma padded_shape:
  assumes "length v = 2 \<or> length v = 3"
  shows "\<exists>a b c. addPatch v = [a, b, c] \<and> partsTriple v = (a, b, c)"
proof -
  from assms consider a b where "v = [a, b]" | a b c where "v = [a, b, c]"
    using length2E length3E by blast
  then show ?thesis
    by cases (simp_all add: padded2 padded3)
qed

lemma compare_padded:
  assumes "length v1 = 2 \<or> length v1 = 3" and "length v2 = 2 \<or> length v2 = 3"
  shows "compareParts 3 (addPatch v1) (addPatch v2) 0 = tripleGreater (partsTriple v1) (partsTriple v2)"
proof -
  from padded_shape [OF assms(1)] obtain a1 b1 c1
    where p1: "addPatch v1 = [a1, b1, c1]" "partsTriple v1 = (a1, b1, c1)" by blast
  from padded_shape [OF assms(2)] obtain a2 b2 c2
    where p2: "addPatch v2 = [a2, b2, c2]" "partsTriple v2 = (a2, b2, c2)" by blast
  show ?thesis
    unfolding p1 p2 by (rule compareParts3)
qed

lemma addPatch_length: "length (addPatch v) = 3 \<longleftrightarrow> length v = 2 \<or> length v = 3"
  by (simp add: addPatch_def)

lemma addPatch_id: "length v = 3 \<Longrightarrow> addPatch v = v"
  by (simp add: addPatch_def)

text \<open>
  The function as one case distinction: the first exception for a part that is no
  number, the second for a wrong number of parts, and otherwise the lexicographic
  comparison of the two triples.
\<close>

lemma newerThanVersion_eq:
  "newerThanVersion q1 q2 =
     (if \<not> (numericParts q1 \<and> numericParts q2) then Inl VersionNonNumeric
      else if \<not> (partCountOk q1 \<and> partCountOk q2) then Inl WrongAmountOfParts
      else Inr (tripleGreater (versionTriple q1) (versionTriple q2)))"
proof (cases "numericParts q1")
  case False
  then show ?thesis
    by (simp add: newerThanVersion_def numericParts_def versionParts_Inl)
next
  case n1: True
  show ?thesis
  proof (cases "numericParts q2")
    case False
    with n1 show ?thesis
      by (simp add: newerThanVersion_def numericParts_def versionParts_Inl versionParts_Inr)
  next
    case n2: True
    define v1 where "v1 = map (\<lambda>p. the (toInt p)) (split CHR ''.'' q1)"
    define v2 where "v2 = map (\<lambda>p. the (toInt p)) (split CHR ''.'' q2)"
    have t1: "versionTriple q1 = partsTriple v1" and t2: "versionTriple q2 = partsTriple v2"
      by (simp_all add: versionTriple_def v1_def v2_def)
    have c1: "partCountOk q1 \<longleftrightarrow> length v1 = 2 \<or> length v1 = 3"
      and c2: "partCountOk q2 \<longleftrightarrow> length v2 = 2 \<or> length v2 = 3"
      by (simp_all add: partCountOk_def v1_def v2_def)
    have p1: "versionParts (split CHR ''.'' q1) = Inr v1"
      and p2: "versionParts (split CHR ''.'' q2) = Inr v2"
      using n1 n2 by (simp_all add: numericParts_def versionParts_Inr v1_def v2_def)
    have eq: "newerThanVersion q1 q2 =
        (if \<not> (length v1 = 3 \<and> length v2 = 3)
         then (if \<not> (length (addPatch v1) = 3 \<and> length (addPatch v2) = 3)
               then Inl WrongAmountOfParts
               else Inr (compareParts 3 (addPatch v1) (addPatch v2) 0))
         else Inr (compareParts 3 v1 v2 0))"
      by (simp add: newerThanVersion_def p1 p2 amountOfVersionParts_def Let_def)
    show ?thesis
    proof (cases "partCountOk q1 \<and> partCountOk q2")
      case True
      then have l: "length v1 = 2 \<or> length v1 = 3" "length v2 = 2 \<or> length v2 = 3"
        using c1 c2 by blast+
      have "newerThanVersion q1 q2 = Inr (compareParts 3 (addPatch v1) (addPatch v2) 0)"
        unfolding eq using l by (auto simp: addPatch_length addPatch_id)
      also have "\<dots> = Inr (tripleGreater (partsTriple v1) (partsTriple v2))"
        using compare_padded [OF l] by simp
      finally show ?thesis using n1 n2 True t1 t2 by simp
    next
      case False
      then have a: "\<not> (length (addPatch v1) = 3 \<and> length (addPatch v2) = 3)"
        using c1 c2 addPatch_length by blast
      then have b: "\<not> (length v1 = 3 \<and> length v2 = 3)"
        using addPatch_length by blast
      have "newerThanVersion q1 q2 = Inl WrongAmountOfParts"
        unfolding eq using a b by simp
      then show ?thesis using n1 n2 False by simp
    qed
  qed
qed

lemma tripleGreater_irrefl: "\<not> tripleGreater t t"
  by (cases t) auto

text \<open>
  C9. \<^verbatim>\<open>newerThanVersion(q1, q2)\<close> throws \<^verbatim>\<open>std::invalid_argument\<close> iff some part of
  either string is not numeric or one of them has neither two nor three parts. Otherwise
  it returns whether the triple (major, minor, patch) of \<open>q1\<close>, a missing patch being
  0, is strictly greater than that of \<open>q2\<close> in the lexicographic order; so it returns
  false whenever the two strings denote the same triple.
\<close>

theorem newerThanVersion_correct:
  "(isl (newerThanVersion q1 q2) \<longleftrightarrow>
      \<not> (numericParts q1 \<and> numericParts q2 \<and> partCountOk q1 \<and> partCountOk q2)) \<and>
   (numericParts q1 \<and> numericParts q2 \<and> partCountOk q1 \<and> partCountOk q2 \<longrightarrow>
      newerThanVersion q1 q2 = Inr (tripleGreater (versionTriple q1) (versionTriple q2)) \<and>
      (versionTriple q1 = versionTriple q2 \<longrightarrow> newerThanVersion q1 q2 = Inr False))"
  by (auto simp: newerThanVersion_eq tripleGreater_irrefl)

theorem newerThanVersion_correct_witness:
  "numericParts ''1.0'' \<and> numericParts ''1.0.0'' \<and> partCountOk ''1.0'' \<and> partCountOk ''1.0.0'' \<and>
   versionTriple ''1.0'' = versionTriple ''1.0.0'' \<and>
   \<not> isl (newerThanVersion ''1.0'' ''1.0.0'') \<and>
   newerThanVersion ''1.0'' ''1.0.0'' = Inr False"
proof -
  have valid: "numericParts ''1.0'' \<and> numericParts ''1.0.0'' \<and> partCountOk ''1.0'' \<and> partCountOk ''1.0.0''"
    by code_simp
  have same: "versionTriple ''1.0'' = versionTriple ''1.0.0''"
    by code_simp
  from newerThanVersion_correct [of "''1.0''" "''1.0.0''"] valid same
  show ?thesis by blast
qed

lemma newerThanVersion_examples:
  "newerThanVersion ''0.10.1'' ''0.9'' = Inr True"
  "newerThanVersion ''0.9'' ''0.10.1'' = Inr False"
  "newerThanVersion ''0.9.2'' ''0.9.2'' = Inr False"
  "newerThanVersion ''0.9.x'' ''0.9.2'' = Inl VersionNonNumeric"
  "newerThanVersion ''0.9.2'' [] = Inl VersionNonNumeric"
  "newerThanVersion ''1'' ''0.9.2'' = Inl WrongAmountOfParts"
  "newerThanVersion ''1.2.3.4'' ''0.9.2'' = Inl WrongAmountOfParts"
  by code_simp+

subsection \<open>The region of interest\<close>

lemma smod2_pos: "(w::int) smod 2 > 0 \<longleftrightarrow> 0 < w \<and> odd w"
  by (auto simp: signed_modulo_int_def sgn_if zero_less_mult_iff mult_less_0_iff
      odd_iff_mod_2_eq_one)

text \<open>
  Where the requested rectangle has a non-negative size and reaches into the quadrant
  right of and below the image origin, the result lies inside the image. The right and
  the lower edge of the request are to be \<^verbatim>\<open>int\<close>s: the code adds \<^verbatim>\<open>rect.x + rect.width\<close>
  in 32 bits, and beyond that range the sum of the model is not the sum of the code.
\<close>

lemma getRoi_inside:
  assumes "0 \<le> cols" "0 \<le> rows" "0 \<le> roi_width roi" "0 \<le> roi_height roi"
    and "1 \<le> roi_x roi + roi_width roi" "1 \<le> roi_y roi + roi_height roi"
    and "roi_x roi + roi_width roi \<le> INT_MAX" "roi_y roi + roi_height roi \<le> INT_MAX"
  shows "insideImage cols rows (getRoi cols rows roi evenPixelNumber)"
  using assms
  by (simp add: getRoi_def insideImage_def Let_def smod2_pos)

text \<open>
  C8, at the inputs where the code leaves the claim. A requested rectangle that ends
  left of the image (\<open>x = -10\<close>, \<open>width = 5\<close>) has its width made even (4) and then
  reduced by the 10 columns outside: the result has width \<open>-6\<close>, although the comment above
  that code says "roi.width and roi.height must be >=0" and the branch for a rectangle
  right of the image does set the width to 0. A rectangle that starts one column
  left of the image with the even width 4 is cut to the odd width 3 after the
  evenness adjustment, although \<^verbatim>\<open>evenPixelNumber\<close> is true.
\<close>

theorem getRoi_outside_or_odd:
  "getRoi 100 100 \<lparr>roi_x = - 10, roi_y = 0, roi_width = 5, roi_height = 10\<rparr> True =
     \<lparr>rect_x = 0, rect_y = 0, rect_width = - 6, rect_height = 10\<rparr> \<and>
   \<not> insideImage 100 100
       (getRoi 100 100 \<lparr>roi_x = - 10, roi_y = 0, roi_width = 5, roi_height = 10\<rparr> True) \<and>
   getRoi 100 100 \<lparr>roi_x = - 1, roi_y = 0, roi_width = 4, roi_height = 4\<rparr> True =
     \<lparr>rect_x = 0, rect_y = 0, rect_width = 3, rect_height = 4\<rparr> \<and>
   \<not> evenSize (getRoi 100 100 \<lparr>roi_x = - 1, roi_y = 0, roi_width = 4, roi_height = 4\<rparr> True)"
  by (simp add: getRoi_def insideImage_def evenSize_def signed_modulo_int_def)

subsection \<open>Manual insertion of a track point\<close>

lemma trackPointExist_index:
  "trackPointExist pers frame \<Longrightarrow> nat (frame - tpers_firstFrame pers) < length (tpers_points pers)"
  by (auto simp: trackPointExist_def lastFrame_def)

lemma trackPointAt_replacePoint:
  "trackPointExist pers frame \<Longrightarrow> trackPointAt (replacePoint pers frame p) frame = acceptPoint p"
  by (simp add: trackPointAt_def replacePoint_def trackPointExist_index)

lemma acceptPoint_manual: "acceptPoint (mkTrackPoint pos manualQuality) = mkTrackPoint pos 100"
  by (simp add: acceptPoint_def mkTrackPoint_def manualQuality_def MAX_QUALITY_def)

text \<open>
  C1. A manually inserted point is handed to \<^verbatim>\<open>addPoint\<close> with the quality 110, which is
  above the maximum 100; so it wins the comparison "new quality strictly exceeds the
  stored quality" against every stored quality of at most 100: for an eligible person
  with a point at the frame, the manual insert replaces that point, and the point
  stored afterwards has the clicked position and the quality clamped to 100.
\<close>

theorem manual_insert_replaces:
  assumes "i < length store" and "eligible sel i" and "trackPointExist (store ! i) frame"
    and "tp_qual (trackPointAt (store ! i) frame) \<le> MAX_QUALITY"
  shows "manualQuality = 110 \<and> manualQuality > MAX_QUALITY \<and>
         replaces (mkTrackPoint pos manualQuality) (trackPointAt (store ! i) frame) \<and>
         addOrMoveManualTrackPoint pos frame sel reco (Some i) store =
           (store[i := replacePoint (store ! i) frame (mkTrackPoint pos manualQuality)], int i) \<and>
         trackPointAt (fst (addOrMoveManualTrackPoint pos frame sel reco (Some i) store) ! i) frame =
           mkTrackPoint pos MAX_QUALITY"
proof -
  have r: "replaces (mkTrackPoint pos manualQuality) (trackPointAt (store ! i) frame)"
    using assms(4) by (simp add: replaces_def mkTrackPoint_def manualQuality_def MAX_QUALITY_def)
  have a: "addOrMoveManualTrackPoint pos frame sel reco (Some i) store =
           (store[i := replacePoint (store ! i) frame (mkTrackPoint pos manualQuality)], int i)"
    using assms(1-3) r by (simp add: addOrMoveManualTrackPoint_def addPoint_def)
  have "trackPointAt (fst (addOrMoveManualTrackPoint pos frame sel reco (Some i) store) ! i) frame =
        acceptPoint (mkTrackPoint pos manualQuality)"
    using assms(1,3) by (simp add: a trackPointAt_replacePoint)
  then have t: "trackPointAt (fst (addOrMoveManualTrackPoint pos frame sel reco (Some i) store) ! i) frame =
        mkTrackPoint pos MAX_QUALITY"
    by (simp only: acceptPoint_manual MAX_QUALITY_def)
  have q: "manualQuality = 110 \<and> manualQuality > MAX_QUALITY"
    by (simp add: manualQuality_def MAX_QUALITY_def)
  from q r a t show ?thesis by blast
qed

text \<open>The second person of the example holds a point of quality 100; it is replaced.\<close>

theorem manual_insert_replaces_witness:
  "1 < length twoPersons \<and> eligible [] 1 \<and> trackPointExist (twoPersons ! 1) 10 \<and>
   tp_qual (trackPointAt (twoPersons ! 1) 10) = 100 \<and>
   trackPointAt (twoPersons ! 1) 10 = mkTrackPoint (30, 40) 100 \<and>
   trackPointAt (fst (addOrMoveManualTrackPoint (31, 41) 10 [] () (Some 1) twoPersons) ! 1) 10 =
     mkTrackPoint (31, 41) MAX_QUALITY"
proof -
  have pre: "1 < length twoPersons" "eligible [] 1" "trackPointExist (twoPersons ! 1) 10"
    by (simp_all add: twoPersons_def eligible_def trackPointExist_def lastFrame_def mkTrackPerson_def)
  have stored: "trackPointAt (twoPersons ! 1) 10 = mkTrackPoint (30, 40) 100"
    by (simp add: twoPersons_def trackPointAt_def mkTrackPerson_def)
  then have q: "tp_qual (trackPointAt (twoPersons ! 1) 10) = 100"
    by (simp add: mkTrackPoint_def)
  then have le: "tp_qual (trackPointAt (twoPersons ! 1) 10) \<le> MAX_QUALITY"
    by (simp add: MAX_QUALITY_def)
  from manual_insert_replaces [OF pre le, of "(31, 41)" "()"] pre stored q
  show ?thesis by blast
qed

text \<open>A point of lower quality than the stored one leaves the store as it is.\<close>

lemma addPoint_lower_quality:
  "addPoint (mkTrackPoint (31, 41) 30) 10 [] () (Some 0) twoPersons = (twoPersons, Some 0)"
  by (simp add: addPoint_def twoPersons_def eligible_def trackPointExist_def lastFrame_def
      mkTrackPerson_def trackPointAt_def mkTrackPoint_def replaces_def)

subsection \<open>Skipping to the frame of a clicked trajectory\<close>

text \<open>
  C4. \<^verbatim>\<open>skipToFrameFromTrajectory\<close> asks the player to skip, to the frame of the match,
  iff \<^verbatim>\<open>getProximalPersons\<close> returns exactly one match; for two or more matches its only
  effect is the warning, and the playback position stays where it was.
\<close>

theorem skip_iff_single_match:
  "(let res = getProximalPersons pos peds
                \<lparr>fr_before = before, fr_after = after, fr_current = currFrame\<rparr> store;
        effects = skipToFrameFromTrajectory getProximalPersons pos peds before after currFrame store
    in (length res = 1 \<longrightarrow> effects = [SkipToFrame (pf_frame (hd res))]) \<and>
       (length res > 1 \<longrightarrow>
          effects = [WarnTooManyTrajectories] \<and> playerPos currFrame effects = currFrame) \<and>
       ((\<exists>f. SkipToFrame f \<in> set effects) \<longleftrightarrow> length res = 1))"
  by (auto simp: skipToFrameFromTrajectory_def Let_def)

theorem skip_iff_single_match_witness:
  "skipToFrameFromTrajectory
     (\<lambda>pos peds range store. [\<lparr>pf_personID = 0, pf_frame = 12\<rparr>, \<lparr>pf_personID = 1, pf_frame = 14\<rparr>])
     (30, 40) [] 5 5 10 twoPersons = [WarnTooManyTrajectories] \<and>
   playerPos 10 [WarnTooManyTrajectories] = 10 \<and>
   skipToFrameFromTrajectory (\<lambda>pos peds range store. [\<lparr>pf_personID = 1, pf_frame = 14\<rparr>])
     (30, 40) [] 5 5 10 twoPersons = [SkipToFrame 14] \<and>
   playerPos 10 [SkipToFrame 14] = 14"
  using
    skip_iff_single_match [of "\<lambda>pos peds range store.
        [\<lparr>pf_personID = 0, pf_frame = 12\<rparr>, \<lparr>pf_personID = 1, pf_frame = 14\<rparr>]"
      "(30, 40)" "[]" 5 5 10 twoPersons]
    skip_iff_single_match [of "\<lambda>pos peds range store. [\<lparr>pf_personID = 1, pf_frame = 14\<rparr>]"
      "(30, 40)" "[]" 5 5 10 twoPersons]
  by (simp add: Let_def)

subsection \<open>The head size under a 3D calibration\<close>

lemma getHeadSize_3D_eq:
  assumes "0 \<le> pers" and "pers < int (length store)"
    and "trackPointExist (store ! nat pers) frame" and "hs_calibCoordDimension env = 0"
  shows "getHeadSize ar env store posGiven pers frame =
         map_option (d_of_int ar)
           (int_of_d ar (stdMax ar (horizontalDelta ar env (trackPointAt (store ! nat pers) frame))
                                   (verticalDelta ar env (trackPointAt (store ! nat pers) frame))))"
  using assms
  by (simp add: getHeadSize_def Let_def horizontalDelta_def verticalDelta_def headPosition_def
      plusHalfHead_def minusHalfHead_def halfHead_def split_beta split: option.split)

lemma exact_distance_horizontal:
  "snd p = snd q \<Longrightarrow> pixelDistance exactArithmetic p q = \<bar>fst q - fst p\<bar>"
  by (simp add: pixelDistance_def exactArithmetic_def)

lemma exact_distance_vertical:
  "fst p = fst q \<Longrightarrow> pixelDistance exactArithmetic p q = \<bar>snd q - snd p\<bar>"
  by (simp add: pixelDistance_def exactArithmetic_def)

lemma orthographic_deltas:
  "horizontalDelta exactArithmetic orthographicHeads (trackPointAt (twoPersons ! 0) 10) = 21 / 2"
  "verticalDelta exactArithmetic orthographicHeads (trackPointAt (twoPersons ! 0) 10) = 21 / 2"
  by (simp_all add: horizontalDelta_def verticalDelta_def headPosition_def plusHalfHead_def
      minusHalfHead_def halfHead_def exact_distance_horizontal exact_distance_vertical
      orthographicHeads_def twoPersons_def trackPointAt_def mkTrackPerson_def mkTrackPoint_def,
      simp_all add: exactArithmetic_def)

lemma orthographic_applies:
  "(0::int) \<le> 0" "0 < int (length twoPersons)" "trackPointExist (twoPersons ! nat 0) 10"
  "hs_calibCoordDimension orthographicHeads = 0"
  by (simp_all add: twoPersons_def trackPointExist_def lastFrame_def mkTrackPerson_def
      orthographicHeads_def)

lemma exact_max: "stdMax exactArithmetic (21 / 2) (21 / 2) = 21 / 2"
  by (simp add: stdMax_def)

lemma exact_cast:
  "int_of_d exactArithmetic (21 / 2) = Some 10" "d_of_int exactArithmetic 10 = 10"
  by (simp_all add: exactArithmetic_def truncated_def INT_MIN_def INT_MAX_def)

text \<open>
  C5, as amended. For a person of the store with a track point at the frame, under a
  3D calibration, \<^verbatim>\<open>getHeadSize\<close> returns the larger (\<^verbatim>\<open>std::max\<close>) of two pixel distances,
  cut down to a whole number by the cast \<^verbatim>\<open>(int)\<close>: the distance between the images of
  the two 3D points half a head size to either side of the estimated head position
  along x, and the same along y. This holds in every arithmetic of floats and doubles;
  where the cast has no defined result, the function has none.
\<close>

theorem getHeadSize_3D:
  assumes "0 \<le> pers" and "pers < int (length store)"
    and "trackPointExist (store ! nat pers) frame" and "hs_calibCoordDimension env = 0"
  shows "getHeadSize ar env store posGiven pers frame =
         map_option (d_of_int ar)
           (int_of_d ar (stdMax ar (horizontalDelta ar env (trackPointAt (store ! nat pers) frame))
                                   (verticalDelta ar env (trackPointAt (store ! nat pers) frame))))"
  using assms by (rule getHeadSize_3D_eq)

theorem getHeadSize_3D_witness:
  "(0::int) \<le> 0 \<and> 0 < int (length twoPersons) \<and> trackPointExist (twoPersons ! nat 0) 10 \<and>
   hs_calibCoordDimension orthographicHeads = 0 \<and>
   getHeadSize exactArithmetic orthographicHeads twoPersons True 0 10 =
     map_option (d_of_int exactArithmetic) (int_of_d exactArithmetic (21 / 2)) \<and>
   map_option (d_of_int exactArithmetic) (int_of_d exactArithmetic (21 / 2)) = Some 10"
  using getHeadSize_3D [OF orthographic_applies, of exactArithmetic True] orthographic_applies
  by (simp add: orthographic_deltas exact_max exact_cast)

text \<open>
  The claim as written, "equals the larger of the pixel deltas", fails where that
  maximum is no whole number. In the example the head position of the first person is
  \<open>(2, 4, 180)\<close>, the four image points are \<open>(6.25, 2)\<close>, \<open>(-4.25, 2)\<close>, \<open>(1, 7.25)\<close> and
  \<open>(1, -3.25)\<close>, both distances are 10.5 pixels, and the function returns 10.
\<close>

theorem getHeadSize_truncates_counterexample:
  "stdMax exactArithmetic
     (horizontalDelta exactArithmetic orthographicHeads (trackPointAt (twoPersons ! 0) 10))
     (verticalDelta exactArithmetic orthographicHeads (trackPointAt (twoPersons ! 0) 10)) = 21 / 2 \<and>
   getHeadSize exactArithmetic orthographicHeads twoPersons False 0 10 = Some 10 \<and>
   getHeadSize exactArithmetic orthographicHeads twoPersons False 0 10 \<noteq>
     Some (stdMax exactArithmetic
       (horizontalDelta exactArithmetic orthographicHeads (trackPointAt (twoPersons ! 0) 10))
       (verticalDelta exactArithmetic orthographicHeads (trackPointAt (twoPersons ! 0) 10)))"
  using getHeadSize_3D_eq [OF orthographic_applies, of exactArithmetic False]
  by (simp add: orthographic_deltas exact_max exact_cast)

subsection \<open>Import of a \<^verbatim>\<open>.trc\<close> file: the version line\<close>

lemma startsWith_subset: "startsWith n s \<Longrightarrow> set n \<subseteq> set s"
  by (induction n s rule: startsWith.induct) auto

lemma contains_subset: "contains n s \<Longrightarrow> set n \<subseteq> set s"
proof (induction s)
  case Nil
  then show ?case using startsWith_subset [of n "[]"] by simp
next
  case (Cons a s)
  then show ?case using startsWith_subset [of n "a # s"] by auto
qed

lemma trimmed_chars: "c \<in> set s \<Longrightarrow> isSpace c \<or> c \<in> set (trimmed s)"
proof -
  assume c: "c \<in> set s"
  have "set s = set (takeWhile isSpace s) \<union> set (dropWhile isSpace s)"
    by (metis set_append takeWhile_dropWhile_id)
  moreover have "set (dropWhile isSpace s) =
      set (takeWhile isSpace (rev (dropWhile isSpace s))) \<union>
      set (dropWhile isSpace (rev (dropWhile isSpace s)))"
    by (metis set_append set_rev takeWhile_dropWhile_id)
  ultimately show ?thesis
    using c by (auto simp: trimmed_def dest: set_takeWhileD)
qed

lemma unsignedDigits_chars: "unsignedDigits ds = Some v \<Longrightarrow> c \<in> set ds \<Longrightarrow> isDigit c"
  by (auto simp: unsignedDigits_def list_all_iff split: if_splits)

lemma signedNumber_chars:
  "signedNumber t = Some v \<Longrightarrow> c \<in> set t \<Longrightarrow> isDigit c \<or> c = CHR ''-'' \<or> c = CHR ''+''"
  by (auto simp: signedNumber_def split: list.splits if_splits dest: unsignedDigits_chars)

text \<open>A string that \<^verbatim>\<open>toInt\<close> accepts consists of white space, digits and signs.\<close>

lemma toInt_chars:
  assumes "toInt s = Some v" and "c \<in> set s"
  shows "isSpace c \<or> isDigit c \<or> c = CHR ''-'' \<or> c = CHR ''+''"
proof -
  from assms(1) obtain w where "signedNumber (trimmed s) = Some w"
    by (auto simp: toInt_def split: option.splits)
  with trimmed_chars [OF assms(2)] show ?thesis
    using signedNumber_chars by blast
qed

lemma number_char_below_letters:
  assumes "isSpace c \<or> isDigit c \<or> c = CHR ''-'' \<or> c = CHR ''+''"
  shows "toLower c = c \<and> (of_char c :: nat) < 65"
  using assms by (auto simp: isSpace_def isDigit_def toLower_def)

lemma v_in_needles:
  "CHR ''v'' \<in> set (map toLower ''version 4'')"
  "CHR ''v'' \<in> set (map toLower ''version 3'')"
  "CHR ''v'' \<in> set (map toLower ''version 2'')"
  by (simp_all add: toLower_def)

lemma containsCI_v_not_number:
  assumes "containsCI needle l" and "CHR ''v'' \<in> set (map toLower needle)"
  shows "toInt l = None"
proof (rule ccontr)
  assume "toInt l \<noteq> None"
  then obtain n where n: "toInt l = Some n" by blast
  from assms(1) have "set (map toLower needle) \<subseteq> set (map toLower l)"
    unfolding containsCI_def by (rule contains_subset)
  with assms(2) have "CHR ''v'' \<in> set (map toLower l)"
    by blast
  then obtain c where c: "c \<in> set l" "toLower c = CHR ''v''" by auto
  from toInt_chars [OF n c(1)] have "toLower c = c \<and> (of_char c :: nat) < 65"
    by (rule number_char_below_letters)
  with c(2) show False by simp
qed

text \<open>So a line with a version marker is never taken for the bare person count.\<close>

lemma version_line_not_number:
  "containsCI ''version 4'' l \<Longrightarrow> toInt l = None"
  "containsCI ''version 3'' l \<Longrightarrow> toInt l = None"
  "containsCI ''version 2'' l \<Longrightarrow> toInt l = None"
  by (rule containsCI_v_not_number, assumption, rule v_in_needles)+

lemma mPersonStorage_readPersons:
  "mPersonStorage (readPersons fromTrc dest v sz st) =
     mPersonStorage st @ map (fromTrc v) [0..<nat sz]"
proof -
  have "fold addPerson ps store = store @ ps" for ps and store :: PersonStorage
    by (induction ps arbitrary: store) (simp_all add: addPerson_def)
  then show ?thesis by (simp add: readPersons_def)
qed

lemma trcVersion_readPersons: "trcVersion (readPersons fromTrc dest v sz st) = v"
  by (simp add: readPersons_def)

text \<open>
  C2. For a \<^verbatim>\<open>.trc\<close> file that could be opened, the importer accepts the versions 1
  to 4 and decides on the first line: a line that is an integer gives version 1, the
  integer being the number of persons; a line that contains "version 4", "version 3"
  or "version 2" (letters compared without case) gives that version, the number of
  persons being read after the line; any other first line raises the error dialog,
  and then no person is added to the store and the version stays as it was. The
  markers are tried in the order 4, 3, 2, which is how the statement settles a line
  with more than one of them; a line with one marker, as the exporter writes it,
  selects the version of that marker.
\<close>

theorem trc_version_line:
  "(let st' = importTracker_trc fromTrc dest True firstLine nextInt st;
        added = (\<lambda>v sz. mPersonStorage st' = mPersonStorage st @ map (fromTrc v) [0..<nat sz])
    in (\<forall>sz. toInt firstLine = Some sz \<longrightarrow> trcVersion st' = 1 \<and> added 1 sz) \<and>
       (containsCI ''version 4'' firstLine \<longrightarrow> trcVersion st' = 4 \<and> added 4 nextInt) \<and>
       (\<not> containsCI ''version 4'' firstLine \<and> containsCI ''version 3'' firstLine \<longrightarrow>
          trcVersion st' = 3 \<and> added 3 nextInt) \<and>
       (\<not> containsCI ''version 4'' firstLine \<and> \<not> containsCI ''version 3'' firstLine \<and>
        containsCI ''version 2'' firstLine \<longrightarrow> trcVersion st' = 2 \<and> added 2 nextInt) \<and>
       (toInt firstLine = None \<and> \<not> containsCI ''version 4'' firstLine \<and>
        \<not> containsCI ''version 3'' firstLine \<and> \<not> containsCI ''version 2'' firstLine \<longrightarrow>
          mPersonStorage st' = mPersonStorage st \<and> trcVersion st' = trcVersion st \<and>
          dialogs st' = dialogs st @ [UnsupportedTrcVersion]))"
  by (auto simp: importTracker_trc_def Let_def mPersonStorage_readPersons trcVersion_readPersons
      version_line_not_number)

theorem trc_version_line_witness:
  "toInt ''2'' = Some 2 \<and>
   trcVersion (importTracker_trc numberedPerson ''a.trc'' True ''2'' 0 emptyProject) = 1 \<and>
   mPersonStorage (importTracker_trc numberedPerson ''a.trc'' True ''2'' 0 emptyProject) =
     [numberedPerson 1 0, numberedPerson 1 1] \<and>
   containsCI ''version 4'' ''version 4'' \<and>
   trcVersion (importTracker_trc numberedPerson ''a.trc'' True ''version 4'' 1 emptyProject) = 4 \<and>
   \<not> containsCI ''version 4'' ''Version 3'' \<and> containsCI ''version 3'' ''Version 3'' \<and>
   trcVersion (importTracker_trc numberedPerson ''a.trc'' True ''Version 3'' 1 emptyProject) = 3 \<and>
   \<not> containsCI ''version 4'' ''version 2'' \<and> \<not> containsCI ''version 3'' ''version 2'' \<and>
   containsCI ''version 2'' ''version 2'' \<and>
   trcVersion (importTracker_trc numberedPerson ''a.trc'' True ''version 2'' 1 emptyProject) = 2 \<and>
   toInt ''version 5'' = None \<and> \<not> containsCI ''version 4'' ''version 5'' \<and>
   \<not> containsCI ''version 3'' ''version 5'' \<and> \<not> containsCI ''version 2'' ''version 5'' \<and>
   mPersonStorage (importTracker_trc numberedPerson ''a.trc'' True ''version 5'' 1 emptyProject) = [] \<and>
   dialogs (importTracker_trc numberedPerson ''a.trc'' True ''version 5'' 1 emptyProject) =
     [UnsupportedTrcVersion]"
proof -
  have lines:
    "toInt ''2'' = Some 2"
    "containsCI ''version 4'' ''version 4''"
    "\<not> containsCI ''version 4'' ''Version 3''" "containsCI ''version 3'' ''Version 3''"
    "\<not> containsCI ''version 4'' ''version 2''" "\<not> containsCI ''version 3'' ''version 2''"
    "containsCI ''version 2'' ''version 2''"
    "toInt ''version 5'' = None" "\<not> containsCI ''version 4'' ''version 5''"
    "\<not> containsCI ''version 3'' ''version 5''" "\<not> containsCI ''version 2'' ''version 5''"
    by code_simp+
  have start: "mPersonStorage emptyProject = []" "dialogs emptyProject = []"
    by (simp_all add: emptyProject_def)
  have two: "map (numberedPerson 1) [0..<nat 2] = [numberedPerson 1 0, numberedPerson 1 1]"
    by (simp add: numeral_2_eq_2 upt_rec)
  show ?thesis
    using
      trc_version_line [of numberedPerson "''a.trc''" "''2''" 0 emptyProject]
      trc_version_line [of numberedPerson "''a.trc''" "''version 4''" 1 emptyProject]
      trc_version_line [of numberedPerson "''a.trc''" "''Version 3''" 1 emptyProject]
      trc_version_line [of numberedPerson "''a.trc''" "''version 2''" 1 emptyProject]
      trc_version_line [of numberedPerson "''a.trc''" "''version 5''" 1 emptyProject]
    unfolding Let_def
    by (simp only: lines start two simp_thms append_Nil option.inject)
qed

text \<open>
  A line with two markers, which no exporter writes: the first test that succeeds
  decides.
\<close>

lemma trc_first_marker_decides:
  "containsCI ''version 3'' ''version 3 (was version 4)'' \<and>
   trcVersion (importTracker_trc numberedPerson ''a.trc'' True ''version 3 (was version 4)'' 0
     emptyProject) = 4"
proof -
  have "containsCI ''version 3'' ''version 3 (was version 4)''"
    and c4: "containsCI ''version 4'' ''version 3 (was version 4)''"
    by code_simp+
  moreover have "toInt ''version 3 (was version 4)'' = None"
    using c4 by (rule version_line_not_number)
  ultimately show ?thesis
    by (simp add: importTracker_trc_def Let_def trcVersion_readPersons)
qed

subsection \<open>Import of a plain-text file: repeated records\<close>

lemma map_of_setFrameData: "map_of (setFrameData p fd pd) = (map_of pd)(p \<mapsto> fd)"
  by (induction pd) (auto simp: fun_eq_iff)

lemma frameFound_keys:
  "frameFound pd q g \<longleftrightarrow> (\<exists>fd. map_of pd q = Some fd \<and> g \<in> fst ` set fd)"
proof (cases "map_of pd q")
  case None
  then show ?thesis by (simp add: frameFound_def)
next
  case (Some fd)
  have "map_of fd g \<noteq> None \<longleftrightarrow> g \<in> fst ` set fd"
    by (simp only: map_of_eq_None_iff not_not)
  with Some show ?thesis by (simp add: frameFound_def)
qed

lemma frameFound_storeRecord:
  "frameFound (storeRecord pd p f v) q g \<longleftrightarrow> (q = p \<and> g = f) \<or> frameFound pd q g"
proof (cases "q = p")
  case True
  show ?thesis
    unfolding frameFound_keys storeRecord_def map_of_setFrameData
    using True by (cases "map_of pd p") (auto simp: set_insort_key)
next
  case False
  then show ?thesis
    unfolding frameFound_keys storeRecord_def map_of_setFrameData by simp
qed

lemma recordKeys_Nil: "recordKeys parse [] = []"
  by (simp add: recordKeys_def)

lemma recordKeys_Cons:
  "recordKeys parse (line # rest) =
     (if startsWithCI ''#'' line then recordKeys parse rest
      else (fst (parse line), fst (snd (parse line))) # recordKeys parse rest)"
  by (simp add: recordKeys_def)

lemma fresh_Nil: "fresh parse [] pd"
  by (simp add: fresh_def recordKeys_Nil)

lemma fresh_header:
  "startsWithCI ''#'' line \<Longrightarrow> fresh parse (line # rest) pd = fresh parse rest pd"
  by (simp add: fresh_def recordKeys_Cons)

lemma fresh_duplicate:
  "\<not> startsWithCI ''#'' line \<Longrightarrow> frameFound pd (fst (parse line)) (fst (snd (parse line))) \<Longrightarrow>
   \<not> fresh parse (line # rest) pd"
  by (auto simp: fresh_def recordKeys_Cons)

lemma fresh_record:
  "\<not> startsWithCI ''#'' line \<Longrightarrow> \<not> frameFound pd (fst (parse line)) (fst (snd (parse line))) \<Longrightarrow>
   fresh parse rest (storeRecord pd (fst (parse line)) (fst (snd (parse line))) v) =
   fresh parse (line # rest) pd"
  by (auto simp: fresh_def recordKeys_Cons frameFound_storeRecord)

text \<open>The first loop returns from the function iff some record is a duplicate.\<close>

lemma scan_fails_iff:
  "(\<exists>ds. scanTxtLines parse ls s = Inl ds) \<longleftrightarrow> \<not> fresh parse ls (ts_personData s)"
proof (induction ls arbitrary: s)
  case Nil
  show ?case by (simp add: fresh_Nil)
next
  case (Cons line rest)
  show ?case
  proof (cases "startsWithCI ''#'' line")
    case True
    then show ?thesis
      using Cons.IH [of "s\<lparr>ts_headerline := line\<rparr>"] by (simp add: fresh_header)
  next
    case False
    then show ?thesis
      by (simp add: Let_def split_beta fresh_record fresh_duplicate Cons.IH)
  qed
qed

lemma scan_failure_dialog:
  "scanTxtLines parse ls s = Inl ds \<Longrightarrow> \<exists>p f. ds \<noteq> [] \<and> last ds = DuplicateInTxt p f"
proof (induction ls arbitrary: s)
  case Nil
  then show ?case by simp
next
  case (Cons line rest)
  then show ?case
    by (auto simp: Let_def split_beta split: if_splits)
qed

lemma commitPersons_append:
  "commitPersons cal pd store =
     store @ map (\<lambda>entry. personFromFrameData cal (fst entry) (snd entry)) pd"
  unfolding commitPersons_def
  by (induction pd arbitrary: store) (simp_all add: addPerson_def)

lemma fresh_start: "fresh parse ls (ts_personData scanStart) = distinct (recordKeys parse ls)"
  by (simp add: fresh_def scanStart_def frameFound_def)

lemma import_after_failure:
  assumes "scanTxtLines parse ls scanStart = Inl ds"
  shows "mPersonStorage (importTracker_txt cal parse dest True ls st) = mPersonStorage st"
    and "mTrcFileName (importTracker_txt cal parse dest True ls st) = mTrcFileName st"
    and "dialogs (importTracker_txt cal parse dest True ls st) = dialogs st @ Import3DFromTxt # ds"
  using assms by (simp_all add: importTracker_txt_def Let_def)

text \<open>
  C3. If some (person, frame) pair occurs twice among the records of a plain-text
  file, the import ends with the critical dialog and the store holds the persons it
  held before: the records are gathered in \<^verbatim>\<open>personData\<close> first, and persons are added
  to the store only after the last line has been read.
\<close>

theorem txt_duplicate_aborts:
  assumes "\<not> distinct (recordKeys parse lines)"
  shows "mPersonStorage (importTracker_txt cal parse dest True lines st) = mPersonStorage st \<and>
         mTrcFileName (importTracker_txt cal parse dest True lines st) = mTrcFileName st \<and>
         (\<exists>p f. last (dialogs (importTracker_txt cal parse dest True lines st)) = DuplicateInTxt p f)"
proof -
  from assms obtain ds where ds: "scanTxtLines parse lines scanStart = Inl ds"
    using scan_fails_iff [of parse lines scanStart] by (auto simp: fresh_start)
  from scan_failure_dialog [OF ds] obtain p f where "ds \<noteq> []" "last ds = DuplicateInTxt p f"
    by blast
  then have "last (dialogs (importTracker_txt cal parse dest True lines st)) = DuplicateInTxt p f"
    by (simp add: import_after_failure(3) [OF ds])
  with import_after_failure(1,2) [OF ds] show ?thesis by blast
qed

theorem txt_duplicate_aborts_witness:
  "recordKeys fiveNumbers repeatedRecord = [(1, 5), (2, 5), (1, 5)] \<and>
   \<not> distinct (recordKeys fiveNumbers repeatedRecord) \<and>
   mPersonStorage (importTracker_txt orthographic fiveNumbers ''a.txt'' True repeatedRecord
     (emptyProject\<lparr>mPersonStorage := twoPersons\<rparr>)) = twoPersons"
proof -
  have keys: "recordKeys fiveNumbers repeatedRecord = [(1, 5), (2, 5), (1, 5)]"
    by code_simp
  then have twice: "\<not> distinct (recordKeys fiveNumbers repeatedRecord)"
    by simp
  from txt_duplicate_aborts [OF twice, of orthographic "''a.txt''"
      "emptyProject\<lparr>mPersonStorage := twoPersons\<rparr>"] keys twice
  show ?thesis by simp
qed

text \<open>
  Without a repeated record the import does commit: one person per person number of
  the file is appended to the store.
\<close>

lemma map_fst_setFrameData:
  "map fst (setFrameData p fd pd) = (if p \<in> fst ` set pd then map fst pd else map fst pd @ [p])"
proof (induction pd)
  case Nil
  show ?case by simp
next
  case (Cons e pd)
  obtain nr gd where e: "e = (nr, gd)" by (cases e)
  show ?case
  proof (cases "nr = p")
    case True
    then show ?thesis by (simp add: e)
  next
    case False
    then show ?thesis using Cons.IH by (simp add: e)
  qed
qed

lemma persons_storeRecord:
  "distinct (map fst pd) \<Longrightarrow> distinct (map fst (storeRecord pd p f v))"
  "fst ` set (storeRecord pd p f v) = insert p (fst ` set pd)"
proof -
  have m: "map fst (storeRecord pd p f v) =
      (if p \<in> fst ` set pd then map fst pd else map fst pd @ [p])"
    by (simp add: storeRecord_def map_fst_setFrameData)
  show "distinct (map fst pd) \<Longrightarrow> distinct (map fst (storeRecord pd p f v))"
    unfolding m by auto
  have "set (map fst (storeRecord pd p f v)) = insert p (fst ` set pd)"
    unfolding m by auto
  then show "fst ` set (storeRecord pd p f v) = insert p (fst ` set pd)"
    by simp
qed

lemma scan_persons:
  assumes "scanTxtLines parse ls s = Inr s'" and "distinct (map fst (ts_personData s))"
  shows "distinct (map fst (ts_personData s')) \<and>
         fst ` set (ts_personData s') =
           fst ` set (ts_personData s) \<union> fst ` set (recordKeys parse ls)"
  using assms
proof (induction ls arbitrary: s)
  case Nil
  then show ?case by (simp add: recordKeys_Nil)
next
  case (Cons line rest)
  show ?case
  proof (cases "startsWithCI ''#'' line")
    case True
    with Cons.prems Cons.IH [of "s\<lparr>ts_headerline := line\<rparr>"] show ?thesis
      by (simp add: recordKeys_Cons)
  next
    case False
    define s1 where "s1 = (if \<not> ts_unitFound s \<and> \<not> contains ''cm'' (ts_headerline s)
                   then s\<lparr>ts_conversionFactorToCM := 100, ts_unitFound := True,
                          ts_dialogs := ts_dialogs s @ [InterpretAsMetres]\<rparr>
                   else s)"
    define p where "p = fst (parse line)"
    define f where "f = fst (snd (parse line))"
    define v where "v = (fst (snd (snd (parse line))) * ts_conversionFactorToCM s1,
                         fst (snd (snd (snd (parse line)))) * ts_conversionFactorToCM s1,
                         snd (snd (snd (snd (parse line)))) * ts_conversionFactorToCM s1)"
    have pd1: "ts_personData s1 = ts_personData s"
      by (simp add: s1_def)
    have step: "scanTxtLines parse (line # rest) s =
        (if \<not> frameFound (ts_personData s1) p f
         then scanTxtLines parse rest (s1\<lparr>ts_personData := storeRecord (ts_personData s1) p f v\<rparr>)
         else Inl (ts_dialogs s1 @ [DuplicateInTxt p f]))"
      using False by (simp add: Let_def split_beta s1_def p_def f_def v_def)
    with Cons.prems(1) have rest:
      "scanTxtLines parse rest (s1\<lparr>ts_personData := storeRecord (ts_personData s1) p f v\<rparr>) = Inr s'"
      by (simp split: if_splits)
    have d: "distinct (map fst (ts_personData (s1\<lparr>ts_personData := storeRecord (ts_personData s1) p f v\<rparr>)))"
      using Cons.prems(2) by (simp add: pd1 persons_storeRecord(1))
    from Cons.IH [OF rest d] show ?thesis
      using False by (auto simp: pd1 persons_storeRecord(2) recordKeys_Cons p_def)
  qed
qed

text \<open>
  Without a repeated record the import adds one person for each person number of the
  file, behind the persons already in the store. Which of them comes first is the
  iteration order of the \<^verbatim>\<open>unordered_map\<close>, so the persons added are given as a set.
\<close>

lemma txt_import_commits:
  assumes "distinct (recordKeys parse lines)"
  shows "\<exists>s. scanTxtLines parse lines scanStart = Inr s \<and>
           take (length (mPersonStorage st))
             (mPersonStorage (importTracker_txt cal parse dest True lines st)) = mPersonStorage st \<and>
           set (drop (length (mPersonStorage st))
             (mPersonStorage (importTracker_txt cal parse dest True lines st))) =
             (\<lambda>entry. personFromFrameData cal (fst entry) (snd entry)) ` set (ts_personData s) \<and>
           length (mPersonStorage (importTracker_txt cal parse dest True lines st)) =
             length (mPersonStorage st) + card (fst ` set (recordKeys parse lines))"
proof -
  from assms have "\<not> (\<exists>ds. scanTxtLines parse lines scanStart = Inl ds)"
    using scan_fails_iff [of parse lines scanStart] by (simp add: fresh_start)
  then obtain s where s: "scanTxtLines parse lines scanStart = Inr s"
    by (cases "scanTxtLines parse lines scanStart") auto
  have "distinct (map fst (ts_personData s)) \<and>
        fst ` set (ts_personData s) = fst ` set (recordKeys parse lines)"
    using scan_persons [OF s] by (simp add: scanStart_def)
  then have "length (ts_personData s) = card (fst ` set (recordKeys parse lines))"
    by (metis distinct_card length_map set_map)
  with s show ?thesis
    by (simp add: importTracker_txt_def Let_def commitPersons_append)
qed

subsection \<open>The order of the stages within one update\<close>













text \<open>
  With the tracking region left of the image, where \<^verbatim>\<open>getRoi\<close> computes a negative
  width, the body throws before the tracker runs.
\<close>

lemma updateImageBody_throws:
  "\<exists>s'. updateImageBody recorders leftOfImage firstImage = Thrown s' \<and> mPersonStorage s' = []"
  by (simp add: updateImageBody_def trackingUpdate_def maintainStore_def filterImage_def Let_def
      leftOfImage_def newFrame_def recorders_def firstImage_def getRoi_def insideImage_def
      signed_modulo_int_def backgroundReset_def)

subsection \<open>The guard: one update at a time\<close>

lemma dropped: "updateImage 0 r = ([ResetSavedMarkers], 0, False)"
  by (cases r) simp

lemma raised_dropped: "raisedCalls 0 rs = (replicate (length rs) ResetSavedMarkers, 0, False)"
  by (induction rs) (simp_all add: dropped)

lemma loop_dropped: "eventLoop 0 rs = (replicate (length rs) ResetSavedMarkers, 0)"
  by (induction rs) (simp_all add: dropped)

lemma one_returns:
  "updateImage 1 (Request True Returns raised) =
     (ResetSavedMarkers # PipelineBegin # replicate (length raised) ResetSavedMarkers @ [PipelineEnd],
      1, False)"
  by (simp add: raised_dropped)

lemma one_throws:
  "updateImage 1 (Request True Throws raised) =
     (ResetSavedMarkers # PipelineBegin # replicate (length raised) ResetSavedMarkers @
        [PipelineThrown],
      0, True)"
  by (simp add: raised_dropped)

lemma peak_ge: "n \<le> peak n ss"
  by (induction n ss rule: peak.induct) (simp_all add: max.coboundedI1)

lemma peak_append: "peak n (xs @ ys) = max (peak n xs) (peak (inProgress n xs) ys)"
  by (induction n xs rule: peak.induct) (simp_all add: max.assoc max_absorb2 peak_ge)

lemma inProgress_append: "inProgress n (xs @ ys) = inProgress (inProgress n xs) ys"
  by (induction n xs rule: inProgress.induct) simp_all

lemma resets:
  "inProgress n (replicate k ResetSavedMarkers) = n"
  "peak n (replicate k ResetSavedMarkers) = n"
  by (induction k) simp_all

lemma one_call:
  "inProgress 0 (fst (updateImage 1 r)) = 0 \<and> peak 0 (fst (updateImage 1 r)) \<le> 1 \<and>
   fst (snd (updateImage 1 r)) = (if runsAndThrows r then 0 else 1)"
proof (cases r)
  case (Request imageLoaded ending raised)
  show ?thesis
  proof (cases imageLoaded)
    case False
    with Request show ?thesis by simp
  next
    case True
    with Request show ?thesis
      by (cases ending) (simp_all add: raised_dropped peak_append inProgress_append resets)
  qed
qed

lemma loop_from_one:
  "inProgress 0 (fst (eventLoop 1 rs)) = 0 \<and> peak 0 (fst (eventLoop 1 rs)) \<le> 1 \<and>
   snd (eventLoop 1 rs) = (if \<exists>r \<in> set rs. runsAndThrows r then 0 else 1)"
proof (induction rs)
  case Nil
  show ?case by simp
next
  case (Cons r rs)
  obtain s1 p1 t1 where r: "updateImage 1 r = (s1, p1, t1)"
    by (cases "updateImage 1 r")
  with one_call [of r]
  have c: "inProgress 0 s1 = 0" "peak 0 s1 \<le> 1" "p1 = (if runsAndThrows r then 0 else 1)"
    by simp_all
  show ?case
  proof (cases "runsAndThrows r")
    case True
    with r c show ?thesis
      by (simp add: loop_dropped peak_append inProgress_append resets)
  next
    case False
    obtain s2 p2 where rs: "eventLoop 1 rs = (s2, p2)"
      by (cases "eventLoop 1 rs")
    with Cons.IH have "inProgress 0 s2 = 0" "peak 0 s2 \<le> 1"
      "p2 = (if \<exists>r \<in> set rs. runsAndThrows r then 0 else 1)"
      by simp_all
    with False r c rs show ?thesis
      by (simp add: peak_append inProgress_append)
  qed
qed

text \<open>
  C7. A call of \<^verbatim>\<open>updateImage\<close> that arrives while the permit is taken does nothing but
  \<^verbatim>\<open>resetSavedMarkers\<close> and leaves the semaphore as it is. A call that passes the guard
  runs its body once, however many calls the body raises; these are dropped, none of
  them runs later. Over any sequence of calls, each with the calls it raises, at
  most one pipeline is in progress at every moment and none at the end. The permit
  is free again after a body that returns. It stays taken after a body that throws,
  since \<^verbatim>\<open>release()\<close> is then not reached; from then on every call is dropped.
\<close>

theorem updateImage_single_flight:
  "updateImage 0 r = ([ResetSavedMarkers], 0, False) \<and>
   updateImage 1 (Request True Returns raised) =
     (ResetSavedMarkers # PipelineBegin # replicate (length raised) ResetSavedMarkers @ [PipelineEnd],
      1, False) \<and>
   updateImage 1 (Request True Throws raised) =
     (ResetSavedMarkers # PipelineBegin # replicate (length raised) ResetSavedMarkers @
        [PipelineThrown],
      0, True) \<and>
   peak 0 (fst (eventLoop 1 rs)) \<le> 1 \<and>
   inProgress 0 (fst (eventLoop 1 rs)) = 0 \<and>
   snd (eventLoop 1 rs) = (if \<exists>r \<in> set rs. runsAndThrows r then 0 else 1) \<and>
   eventLoop 0 rs = (replicate (length rs) ResetSavedMarkers, 0)"
  using loop_from_one [of rs] dropped [of r] one_returns [of raised] one_throws [of raised]
    loop_dropped [of rs]
  by blast

lemma updateImage_examples:
  "updateImage 1 (Request True Returns [Request True Returns [Request True Returns []],
       Request False Returns []]) =
     ([ResetSavedMarkers, PipelineBegin, ResetSavedMarkers, ResetSavedMarkers, PipelineEnd], 1, False)"
  "eventLoop 1 [Request True Throws [Request True Returns []], Request True Returns []] =
     ([ResetSavedMarkers, PipelineBegin, ResetSavedMarkers, PipelineThrown, ResetSavedMarkers], 0)"
  by simp_all

end
